theory Spec2Isabelle
  imports Main "HOL-Library.Word" "HOL-Library.Multiset" "HOL-Library.AList"
begin

section \<open>Platform types (platform\_defines.h)\<close>

text \<open>
  \<open>memory_uint64_t\<close> is a 64-bit unsigned integer. \<open>memory_size_t\<close> is \<open>std::size_t\<close>,
  taken here at 64 bits (LP64 and LLP64 platforms), and a \<open>void*\<close> is a 64-bit address
  with \<open>nullptr\<close> the address 0. Arithmetic on all three wraps modulo \<open>2 ^ 64\<close>.
\<close>

type_synonym memory_uint64_t = "64 word"
type_synonym memory_size_t = "64 word"
type_synonym pointer = "64 word"

definition nullptr :: pointer where
  "nullptr = 0"

section \<open>Thread safety abstractions (thread\_safe.h)\<close>

datatype ThreadSafetyPolicy = TS_NONE | STD_ATOMIC | CUSTOM_ATOMIC

subsection \<open>\<open>SafeNumeric<T, ThreadSafetyPolicy::NONE>\<close>\<close>

text \<open>
  A counter is its stored \<open>value\<close>. Every member function takes the stored value first
  and returns the pair of the function's result and the stored value afterwards.
\<close>

definition SafeNumeric_NONE_set :: "memory_uint64_t \<Rightarrow> memory_uint64_t \<Rightarrow> memory_uint64_t" where
  "SafeNumeric_NONE_set value p_value = p_value"

definition SafeNumeric_NONE_get :: "memory_uint64_t \<Rightarrow> memory_uint64_t" where
  "SafeNumeric_NONE_get value = value"

definition SafeNumeric_NONE_increment :: "memory_uint64_t \<Rightarrow> memory_uint64_t \<times> memory_uint64_t" where
  "SafeNumeric_NONE_increment value = (value + 1, value + 1)"

definition SafeNumeric_NONE_add ::
  "memory_uint64_t \<Rightarrow> memory_uint64_t \<Rightarrow> memory_uint64_t \<times> memory_uint64_t" where
  "SafeNumeric_NONE_add value p_value = (value + p_value, value + p_value)"

definition SafeNumeric_NONE_sub ::
  "memory_uint64_t \<Rightarrow> memory_uint64_t \<Rightarrow> memory_uint64_t \<times> memory_uint64_t" where
  "SafeNumeric_NONE_sub value p_value = (value - p_value, value - p_value)"

definition SafeNumeric_NONE_exchange_if_greater ::
  "memory_uint64_t \<Rightarrow> memory_uint64_t \<Rightarrow> memory_uint64_t \<times> memory_uint64_t" where
  "SafeNumeric_NONE_exchange_if_greater value p_value =
     (let value' = (if p_value > value then p_value else value) in (value', value'))"

subsection \<open>\<open>SafeNumeric<T, ThreadSafetyPolicy::STD_ATOMIC>\<close>, run by one thread\<close>

text \<open>
  The operations of \<open>std::atomic\<close> as one thread sees them. \<open>fetch_add\<close> and \<open>fetch_sub\<close>
  return the value held before the update. \<open>compare_exchange_weak\<close> may fail although the
  stored value equals the expected one; whether an attempt fails in this way is the
  argument \<open>spurious\<close>. It returns the success flag, the stored value and the (possibly
  reloaded) expected value.
\<close>

definition atomic_load :: "memory_uint64_t \<Rightarrow> memory_uint64_t" where
  "atomic_load value = value"

definition atomic_store :: "memory_uint64_t \<Rightarrow> memory_uint64_t \<Rightarrow> memory_uint64_t" where
  "atomic_store value p_value = p_value"

definition atomic_fetch_add ::
  "memory_uint64_t \<Rightarrow> memory_uint64_t \<Rightarrow> memory_uint64_t \<times> memory_uint64_t" where
  "atomic_fetch_add value p_value = (value, value + p_value)"

definition atomic_fetch_sub ::
  "memory_uint64_t \<Rightarrow> memory_uint64_t \<Rightarrow> memory_uint64_t \<times> memory_uint64_t" where
  "atomic_fetch_sub value p_value = (value, value - p_value)"

definition compare_exchange_weak ::
  "bool \<Rightarrow> memory_uint64_t \<Rightarrow> memory_uint64_t \<Rightarrow> memory_uint64_t
     \<Rightarrow> bool \<times> memory_uint64_t \<times> memory_uint64_t" where
  "compare_exchange_weak spurious value expected desired =
     (if value = expected \<and> \<not> spurious then (True, desired, expected)
      else (False, value, value))"

definition SafeNumeric_ATOMIC_set :: "memory_uint64_t \<Rightarrow> memory_uint64_t \<Rightarrow> memory_uint64_t" where
  "SafeNumeric_ATOMIC_set value p_value = atomic_store value p_value"

definition SafeNumeric_ATOMIC_get :: "memory_uint64_t \<Rightarrow> memory_uint64_t" where
  "SafeNumeric_ATOMIC_get value = atomic_load value"

definition SafeNumeric_ATOMIC_increment :: "memory_uint64_t \<Rightarrow> memory_uint64_t \<times> memory_uint64_t" where
  "SafeNumeric_ATOMIC_increment value =
     (case atomic_fetch_add value 1 of (old, value') \<Rightarrow> (old + 1, value'))"

definition SafeNumeric_ATOMIC_add ::
  "memory_uint64_t \<Rightarrow> memory_uint64_t \<Rightarrow> memory_uint64_t \<times> memory_uint64_t" where
  "SafeNumeric_ATOMIC_add value p_value =
     (case atomic_fetch_add value p_value of (old, value') \<Rightarrow> (old + p_value, value'))"

definition SafeNumeric_ATOMIC_sub ::
  "memory_uint64_t \<Rightarrow> memory_uint64_t \<Rightarrow> memory_uint64_t \<times> memory_uint64_t" where
  "SafeNumeric_ATOMIC_sub value p_value =
     (case atomic_fetch_sub value p_value of (old, value') \<Rightarrow> (old - p_value, value'))"

text \<open>
  The retry loop of \<open>exchange_if_greater\<close>. Each pass through the loop body makes one
  \<open>compare_exchange_weak\<close> attempt and takes its \<open>spurious\<close> flag from the head of the
  schedule \<open>sched\<close>. The loop returns \<open>Some (result, stored value)\<close>; \<open>None\<close> stands for a
  run that is still retrying when the schedule is used up.
\<close>

fun exchange_if_greater_loop ::
  "bool list \<Rightarrow> memory_uint64_t \<Rightarrow> memory_uint64_t \<Rightarrow> memory_uint64_t
     \<Rightarrow> (memory_uint64_t \<times> memory_uint64_t) option" where
  "exchange_if_greater_loop [] value current p_value =
     (if p_value > current then None else Some (current, value))"
| "exchange_if_greater_loop (spurious # sched) value current p_value =
     (if p_value > current then
        (case compare_exchange_weak spurious value current p_value of
           (True, value', current') \<Rightarrow> Some (p_value, value')
         | (False, value', current') \<Rightarrow> exchange_if_greater_loop sched value' current' p_value)
      else Some (current, value))"

definition SafeNumeric_ATOMIC_exchange_if_greater ::
  "bool list \<Rightarrow> memory_uint64_t \<Rightarrow> memory_uint64_t
     \<Rightarrow> (memory_uint64_t \<times> memory_uint64_t) option" where
  "SafeNumeric_ATOMIC_exchange_if_greater sched value p_value =
     exchange_if_greater_loop sched value (atomic_load value) p_value"

subsection \<open>\<open>SafeNumeric<memory_uint64_t, Policy>\<close> as the trackers use it\<close>

text \<open>
  \<open>CUSTOM_ATOMIC\<close> inherits every member from \<open>STD_ATOMIC\<close>. The trackers are modelled on
  one thread, and there the compare-and-swap of \<open>exchange_if_greater\<close> is taken to succeed
  at its first attempt (the schedule \<open>[False]\<close>), so that the loop returns and the case
  \<open>None\<close> below does not arise.
\<close>

definition CounterType_set ::
  "ThreadSafetyPolicy \<Rightarrow> memory_uint64_t \<Rightarrow> memory_uint64_t \<Rightarrow> memory_uint64_t" where
  "CounterType_set policy value p_value =
     (case policy of TS_NONE \<Rightarrow> SafeNumeric_NONE_set value p_value
      | _ \<Rightarrow> SafeNumeric_ATOMIC_set value p_value)"

definition CounterType_get :: "ThreadSafetyPolicy \<Rightarrow> memory_uint64_t \<Rightarrow> memory_uint64_t" where
  "CounterType_get policy value =
     (case policy of TS_NONE \<Rightarrow> SafeNumeric_NONE_get value
      | _ \<Rightarrow> SafeNumeric_ATOMIC_get value)"

definition CounterType_increment ::
  "ThreadSafetyPolicy \<Rightarrow> memory_uint64_t \<Rightarrow> memory_uint64_t \<times> memory_uint64_t" where
  "CounterType_increment policy value =
     (case policy of TS_NONE \<Rightarrow> SafeNumeric_NONE_increment value
      | _ \<Rightarrow> SafeNumeric_ATOMIC_increment value)"

definition CounterType_add ::
  "ThreadSafetyPolicy \<Rightarrow> memory_uint64_t \<Rightarrow> memory_uint64_t \<Rightarrow> memory_uint64_t \<times> memory_uint64_t" where
  "CounterType_add policy value p_value =
     (case policy of TS_NONE \<Rightarrow> SafeNumeric_NONE_add value p_value
      | _ \<Rightarrow> SafeNumeric_ATOMIC_add value p_value)"

definition CounterType_sub ::
  "ThreadSafetyPolicy \<Rightarrow> memory_uint64_t \<Rightarrow> memory_uint64_t \<Rightarrow> memory_uint64_t \<times> memory_uint64_t" where
  "CounterType_sub policy value p_value =
     (case policy of TS_NONE \<Rightarrow> SafeNumeric_NONE_sub value p_value
      | _ \<Rightarrow> SafeNumeric_ATOMIC_sub value p_value)"

definition CounterType_exchange_if_greater ::
  "ThreadSafetyPolicy \<Rightarrow> memory_uint64_t \<Rightarrow> memory_uint64_t \<Rightarrow> memory_uint64_t \<times> memory_uint64_t" where
  "CounterType_exchange_if_greater policy value p_value =
     (case policy of TS_NONE \<Rightarrow> SafeNumeric_NONE_exchange_if_greater value p_value
      | _ \<Rightarrow> (case SafeNumeric_ATOMIC_exchange_if_greater [False] value p_value of
                Some r \<Rightarrow> r
              | None \<Rightarrow> (value, value)))"

section \<open>Configuration (memory\_config.h)\<close>

text \<open>
  The enumerations, with the names of their enumerators. \<open>NONE\<close> and \<open>CUSTOM\<close> name an
  enumerator of more than one enumeration and carry the initials of their type here:
  \<open>TS_NONE\<close> is \<open>ThreadSafetyPolicy::NONE\<close>, \<open>TL_NONE\<close> is \<open>MemoryTrackingLevel::NONE\<close>,
  \<open>PP_NONE\<close> is \<open>MemoryPaddingPolicy::NONE\<close>, and so on.
\<close>

datatype MemoryTrackingLevel = TL_NONE | BASIC | DETAILED | FULL

datatype MemoryAlignmentPolicy = AP_NONE | STANDARD | AP_CUSTOM | PLATFORM_OPTIMAL

datatype MemoryPaddingPolicy = PP_NONE | DEBUG_ONLY | ALWAYS | CONFIGURABLE

datatype MemoryAllocationStrategy = SYSTEM_DEFAULT | POOLED | AS_CUSTOM | HYBRID

datatype MemoryErrorPolicy = SILENT | LOG_ONLY | ASSERT_DEBUG | ASSERT_ALWAYS | EXCEPTION

text \<open>
  What the headers take from the compiler: the macro \<open>MEMORY_DEBUG_ENABLED\<close>,
  \<open>alignof(memory_uint64_t)\<close> and \<open>alignof(std::max_align_t)\<close>.
  \<open>sizeof(memory_uint64_t)\<close> is 8.
\<close>

record Platform =
  MEMORY_DEBUG_ENABLED :: bool
  alignof_uint64 :: memory_size_t
  alignof_max_align :: memory_size_t

definition sizeof_uint64 :: memory_size_t where
  "sizeof_uint64 = 8"

text \<open>The template \<open>MemoryConfig\<close>: one field for each of its nine parameters.\<close>

record MemoryConfig =
  ENABLE_TRACKING :: bool
  ENABLE_ALIGNMENT :: bool
  ENABLE_PADDING :: bool
  THREAD_POLICY :: ThreadSafetyPolicy
  TRACKING_LEVEL :: MemoryTrackingLevel
  ALIGNMENT_POLICY :: MemoryAlignmentPolicy
  PADDING_POLICY :: MemoryPaddingPolicy
  ALLOCATION_STRATEGY :: MemoryAllocationStrategy
  ERROR_POLICY :: MemoryErrorPolicy

definition SIZE_OFFSET :: memory_size_t where
  "SIZE_OFFSET = 0"

definition ELEMENT_OFFSET :: "Platform \<Rightarrow> memory_size_t" where
  "ELEMENT_OFFSET plat =
     (if (SIZE_OFFSET + sizeof_uint64) mod alignof_uint64 plat = 0
      then SIZE_OFFSET + sizeof_uint64
      else (SIZE_OFFSET + sizeof_uint64) + alignof_uint64 plat
             - ((SIZE_OFFSET + sizeof_uint64) mod alignof_uint64 plat))"

definition DATA_OFFSET :: "Platform \<Rightarrow> memory_size_t" where
  "DATA_OFFSET plat =
     (if (ELEMENT_OFFSET plat + sizeof_uint64) mod alignof_max_align plat = 0
      then ELEMENT_OFFSET plat + sizeof_uint64
      else (ELEMENT_OFFSET plat + sizeof_uint64) + alignof_max_align plat
             - ((ELEMENT_OFFSET plat + sizeof_uint64) mod alignof_max_align plat))"

definition DefaultConfig :: "Platform \<Rightarrow> MemoryConfig" where
  "DefaultConfig plat =
     \<lparr> ENABLE_TRACKING = MEMORY_DEBUG_ENABLED plat,
       ENABLE_ALIGNMENT = True,
       ENABLE_PADDING = MEMORY_DEBUG_ENABLED plat,
       THREAD_POLICY = STD_ATOMIC,
       TRACKING_LEVEL = (if MEMORY_DEBUG_ENABLED plat then BASIC else TL_NONE),
       ALIGNMENT_POLICY = STANDARD,
       PADDING_POLICY = (if MEMORY_DEBUG_ENABLED plat then DEBUG_ONLY else PP_NONE),
       ALLOCATION_STRATEGY = SYSTEM_DEFAULT,
       ERROR_POLICY = (if MEMORY_DEBUG_ENABLED plat then ASSERT_DEBUG else LOG_ONLY) \<rparr>"

definition HighPerformanceConfig :: MemoryConfig where
  "HighPerformanceConfig =
     \<lparr> ENABLE_TRACKING = False, ENABLE_ALIGNMENT = False, ENABLE_PADDING = False,
       THREAD_POLICY = TS_NONE, TRACKING_LEVEL = TL_NONE, ALIGNMENT_POLICY = AP_NONE,
       PADDING_POLICY = PP_NONE, ALLOCATION_STRATEGY = SYSTEM_DEFAULT, ERROR_POLICY = SILENT \<rparr>"

definition DebugConfig :: MemoryConfig where
  "DebugConfig =
     \<lparr> ENABLE_TRACKING = True, ENABLE_ALIGNMENT = True, ENABLE_PADDING = True,
       THREAD_POLICY = STD_ATOMIC, TRACKING_LEVEL = DETAILED, ALIGNMENT_POLICY = STANDARD,
       PADDING_POLICY = ALWAYS, ALLOCATION_STRATEGY = SYSTEM_DEFAULT,
       ERROR_POLICY = ASSERT_ALWAYS \<rparr>"

definition EmbeddedConfig :: MemoryConfig where
  "EmbeddedConfig =
     \<lparr> ENABLE_TRACKING = False, ENABLE_ALIGNMENT = False, ENABLE_PADDING = False,
       THREAD_POLICY = TS_NONE, TRACKING_LEVEL = TL_NONE, ALIGNMENT_POLICY = AP_NONE,
       PADDING_POLICY = PP_NONE, ALLOCATION_STRATEGY = POOLED, ERROR_POLICY = SILENT \<rparr>"

definition ThreadSafeConfig :: MemoryConfig where
  "ThreadSafeConfig =
     \<lparr> ENABLE_TRACKING = True, ENABLE_ALIGNMENT = True, ENABLE_PADDING = True,
       THREAD_POLICY = STD_ATOMIC, TRACKING_LEVEL = BASIC, ALIGNMENT_POLICY = STANDARD,
       PADDING_POLICY = DEBUG_ONLY, ALLOCATION_STRATEGY = SYSTEM_DEFAULT,
       ERROR_POLICY = ASSERT_DEBUG \<rparr>"

definition validate_config :: "MemoryConfig \<Rightarrow> bool" where
  "validate_config cfg =
     (if ENABLE_TRACKING cfg \<and> TRACKING_LEVEL cfg = TL_NONE then False
      else if ENABLE_ALIGNMENT cfg \<and> ALIGNMENT_POLICY cfg = AP_NONE then False
      else if ENABLE_PADDING cfg \<and> PADDING_POLICY cfg = PP_NONE then False
      else True)"

section \<open>Error reporting (error\_handling.h)\<close>

datatype MemoryErrorType = MEM_ERROR | MEM_WARNING | MEM_ASSERTION | MEM_FATAL

text \<open>
  What a qualified name \<open>MemoryErrorType::name\<close> denotes: the enumerator of that name, and
  nothing when the enumeration declares no such enumerator.
\<close>

definition MemoryErrorType_enumerator :: "string \<Rightarrow> MemoryErrorType option" where
  "MemoryErrorType_enumerator name =
     (if name = ''MEM_ERROR'' then Some MEM_ERROR
      else if name = ''MEM_WARNING'' then Some MEM_WARNING
      else if name = ''MEM_ASSERTION'' then Some MEM_ASSERTION
      else if name = ''MEM_FATAL'' then Some MEM_FATAL
      else None)"

text \<open>
  One call of the installed error handler: the five arguments that
  \<open>_memory_report_error\<close> forwards to it. The error sink is the list of these calls, oldest
  first. \<open>__FILE__\<close> is rendered as the name of the header and \<open>__LINE__\<close> as the line of
  the macro's use in it.
\<close>

record MemoryErrorReport =
  report_type :: MemoryErrorType
  report_function :: string
  report_file :: string
  report_line :: int
  report_message :: string

definition memory_report_error ::
  "MemoryErrorType \<Rightarrow> string \<Rightarrow> string \<Rightarrow> int \<Rightarrow> string \<Rightarrow> MemoryErrorReport" where
  "memory_report_error type function file line message =
     \<lparr> report_type = type, report_function = function, report_file = file,
       report_line = line, report_message = message \<rparr>"

definition MEMORY_ERROR :: "string \<Rightarrow> string \<Rightarrow> int \<Rightarrow> string \<Rightarrow> MemoryErrorReport" where
  "MEMORY_ERROR function file line message =
     memory_report_error MEM_ERROR function file line message"

text \<open>\<open>std::to_string\<close> on an unsigned and on a signed integer: decimal digits.\<close>

definition digit_char :: "nat \<Rightarrow> char" where
  "digit_char d = ''0123456789'' ! d"

fun to_string_nat :: "nat \<Rightarrow> string" where
  "to_string_nat n =
     (if n < 10 then [digit_char n] else to_string_nat (n div 10) @ [digit_char (n mod 10)])"

declare to_string_nat.simps [simp del]

definition to_string_uint64 :: "memory_uint64_t \<Rightarrow> string" where
  "to_string_uint64 w = to_string_nat (unat w)"

definition to_string_int :: "int \<Rightarrow> string" where
  "to_string_int i =
     (if i < 0 then CHR ''-'' # to_string_nat (nat (- i)) else to_string_nat (nat i))"

section \<open>Tracking (memory\_tracker.h)\<close>

text \<open>
  \<open>AllocationInfo\<close>: the fields \<open>size\<close>, \<open>file\<close>, \<open>line\<close>, \<open>function\<close>, \<open>timestamp\<close> and
  \<open>allocation_id\<close>. A \<open>const char*\<close> that may be null is a \<open>string option\<close>.
\<close>

record AllocationInfo =
  alloc_size :: memory_size_t
  alloc_file :: "string option"
  alloc_line :: int
  alloc_function :: "string option"
  alloc_timestamp :: memory_uint64_t
  allocation_id :: memory_uint64_t

record MemoryStats =
  total_allocated :: memory_uint64_t
  total_freed :: memory_uint64_t
  current_usage :: memory_uint64_t
  peak_usage :: memory_uint64_t
  allocation_count :: memory_uint64_t
  deallocation_count :: memory_uint64_t
  reallocation_count :: memory_uint64_t

text \<open>\<open>MemoryStats{}\<close>: every field at its default member initializer.\<close>

definition MemoryStats_default :: MemoryStats where
  "MemoryStats_default =
     \<lparr> total_allocated = 0, total_freed = 0, current_usage = 0, peak_usage = 0,
       allocation_count = 0, deallocation_count = 0, reallocation_count = 0 \<rparr>"

text \<open>
  The static members of a tracker class: the counters \<open>current_usage_\<close>, \<open>peak_usage_\<close>,
  \<open>allocation_count_\<close>, \<open>deallocation_count_\<close>, \<open>reallocation_count_\<close> and, in
  \<open>DetailedMemoryTracker\<close> only, \<open>next_allocation_id_\<close> and the table \<open>allocations_\<close>.
  Each counter is the value it stores. The \<open>std::unordered_map\<close> is a list of
  (pointer, record) pairs with at most one pair for a pointer; the order of the list is
  the order in which a range-for loop over the table meets the records, which C++ leaves
  open, so nothing below depends on it.
\<close>

record TrackerState =
  current_usage_ctr :: memory_uint64_t
  peak_usage_ctr :: memory_uint64_t
  allocation_count_ctr :: memory_uint64_t
  deallocation_count_ctr :: memory_uint64_t
  reallocation_count_ctr :: memory_uint64_t
  next_allocation_id_ctr :: memory_uint64_t
  allocations_tbl :: "(pointer \<times> AllocationInfo) list"

definition TrackerState_initial :: TrackerState where
  "TrackerState_initial =
     \<lparr> current_usage_ctr = 0, peak_usage_ctr = 0, allocation_count_ctr = 0,
       deallocation_count_ctr = 0, reallocation_count_ctr = 0, next_allocation_id_ctr = 0,
       allocations_tbl = [] \<rparr>"

subsection \<open>\<open>MemoryTracker<Config>\<close>: no tracking\<close>

definition MemoryTracker_track_allocation :: "memory_size_t \<Rightarrow> TrackerState \<Rightarrow> TrackerState" where
  "MemoryTracker_track_allocation sz t = t"

definition MemoryTracker_track_deallocation :: "memory_size_t \<Rightarrow> TrackerState \<Rightarrow> TrackerState" where
  "MemoryTracker_track_deallocation sz t = t"

definition MemoryTracker_track_reallocation ::
  "memory_size_t \<Rightarrow> memory_size_t \<Rightarrow> TrackerState \<Rightarrow> TrackerState" where
  "MemoryTracker_track_reallocation old_size new_size t = t"

definition MemoryTracker_get_current_usage :: "TrackerState \<Rightarrow> memory_uint64_t" where
  "MemoryTracker_get_current_usage t = 0"

definition MemoryTracker_get_peak_usage :: "TrackerState \<Rightarrow> memory_uint64_t" where
  "MemoryTracker_get_peak_usage t = 0"

definition MemoryTracker_get_allocation_count :: "TrackerState \<Rightarrow> memory_uint64_t" where
  "MemoryTracker_get_allocation_count t = 0"

definition MemoryTracker_get_stats :: "TrackerState \<Rightarrow> MemoryStats" where
  "MemoryTracker_get_stats t = MemoryStats_default"

definition MemoryTracker_reset_stats :: "TrackerState \<Rightarrow> TrackerState" where
  "MemoryTracker_reset_stats t = t"

definition MemoryTracker_dump_allocations :: "TrackerState \<Rightarrow> MemoryErrorReport list" where
  "MemoryTracker_dump_allocations t = []"

subsection \<open>\<open>BasicMemoryTracker<Config>\<close>: aggregate counters\<close>

definition BasicMemoryTracker_track_allocation ::
  "MemoryConfig \<Rightarrow> memory_size_t \<Rightarrow> TrackerState \<Rightarrow> TrackerState" where
  "BasicMemoryTracker_track_allocation cfg sz t =
     (if ENABLE_TRACKING cfg then
        (case CounterType_add (THREAD_POLICY cfg) (current_usage_ctr t) sz of
           (new_usage, current') \<Rightarrow>
        (case CounterType_exchange_if_greater (THREAD_POLICY cfg) (peak_usage_ctr t) new_usage of
           (_, peak') \<Rightarrow>
        (case CounterType_increment (THREAD_POLICY cfg) (allocation_count_ctr t) of
           (_, count') \<Rightarrow>
             t\<lparr>current_usage_ctr := current', peak_usage_ctr := peak',
               allocation_count_ctr := count'\<rparr>)))
      else t)"

definition BasicMemoryTracker_track_deallocation ::
  "MemoryConfig \<Rightarrow> memory_size_t \<Rightarrow> TrackerState \<Rightarrow> TrackerState" where
  "BasicMemoryTracker_track_deallocation cfg sz t =
     (if ENABLE_TRACKING cfg then
        (case CounterType_sub (THREAD_POLICY cfg) (current_usage_ctr t) sz of
           (_, current') \<Rightarrow>
        (case CounterType_increment (THREAD_POLICY cfg) (deallocation_count_ctr t) of
           (_, count') \<Rightarrow>
             t\<lparr>current_usage_ctr := current', deallocation_count_ctr := count'\<rparr>))
      else t)"

definition BasicMemoryTracker_track_reallocation ::
  "MemoryConfig \<Rightarrow> memory_size_t \<Rightarrow> memory_size_t \<Rightarrow> TrackerState \<Rightarrow> TrackerState" where
  "BasicMemoryTracker_track_reallocation cfg old_size new_size t =
     (if ENABLE_TRACKING cfg then
        (let t1 =
           (if new_size > old_size then
              (case CounterType_add (THREAD_POLICY cfg) (current_usage_ctr t) (new_size - old_size) of
                 (new_usage, current') \<Rightarrow>
              (case CounterType_exchange_if_greater (THREAD_POLICY cfg) (peak_usage_ctr t) new_usage of
                 (_, peak') \<Rightarrow> t\<lparr>current_usage_ctr := current', peak_usage_ctr := peak'\<rparr>))
            else if old_size > new_size then
              (case CounterType_sub (THREAD_POLICY cfg) (current_usage_ctr t) (old_size - new_size) of
                 (_, current') \<Rightarrow> t\<lparr>current_usage_ctr := current'\<rparr>)
            else t)
         in (case CounterType_increment (THREAD_POLICY cfg) (reallocation_count_ctr t1) of
               (_, count') \<Rightarrow> t1\<lparr>reallocation_count_ctr := count'\<rparr>))
      else t)"

definition BasicMemoryTracker_get_current_usage :: "MemoryConfig \<Rightarrow> TrackerState \<Rightarrow> memory_uint64_t" where
  "BasicMemoryTracker_get_current_usage cfg t =
     (if ENABLE_TRACKING cfg then CounterType_get (THREAD_POLICY cfg) (current_usage_ctr t) else 0)"

definition BasicMemoryTracker_get_peak_usage :: "MemoryConfig \<Rightarrow> TrackerState \<Rightarrow> memory_uint64_t" where
  "BasicMemoryTracker_get_peak_usage cfg t =
     (if ENABLE_TRACKING cfg then CounterType_get (THREAD_POLICY cfg) (peak_usage_ctr t) else 0)"

definition BasicMemoryTracker_get_allocation_count ::
  "MemoryConfig \<Rightarrow> TrackerState \<Rightarrow> memory_uint64_t" where
  "BasicMemoryTracker_get_allocation_count cfg t =
     (if ENABLE_TRACKING cfg then CounterType_get (THREAD_POLICY cfg) (allocation_count_ctr t) else 0)"

definition BasicMemoryTracker_get_stats :: "MemoryConfig \<Rightarrow> TrackerState \<Rightarrow> MemoryStats" where
  "BasicMemoryTracker_get_stats cfg t =
     (if ENABLE_TRACKING cfg then
        (let stats = MemoryStats_default;
             stats = stats\<lparr>current_usage := CounterType_get (THREAD_POLICY cfg) (current_usage_ctr t)\<rparr>;
             stats = stats\<lparr>peak_usage := CounterType_get (THREAD_POLICY cfg) (peak_usage_ctr t)\<rparr>;
             stats = stats\<lparr>allocation_count :=
                       CounterType_get (THREAD_POLICY cfg) (allocation_count_ctr t)\<rparr>;
             stats = stats\<lparr>deallocation_count :=
                       CounterType_get (THREAD_POLICY cfg) (deallocation_count_ctr t)\<rparr>;
             stats = stats\<lparr>reallocation_count :=
                       CounterType_get (THREAD_POLICY cfg) (reallocation_count_ctr t)\<rparr>;
             stats = stats\<lparr>total_allocated := allocation_count stats\<rparr>;
             stats = stats\<lparr>total_freed := deallocation_count stats\<rparr>
         in stats)
      else MemoryStats_default)"

definition BasicMemoryTracker_reset_stats :: "MemoryConfig \<Rightarrow> TrackerState \<Rightarrow> TrackerState" where
  "BasicMemoryTracker_reset_stats cfg t =
     (if ENABLE_TRACKING cfg then
        t\<lparr>current_usage_ctr := CounterType_set (THREAD_POLICY cfg) (current_usage_ctr t) 0,
          peak_usage_ctr := CounterType_set (THREAD_POLICY cfg) (peak_usage_ctr t) 0,
          allocation_count_ctr := CounterType_set (THREAD_POLICY cfg) (allocation_count_ctr t) 0,
          deallocation_count_ctr :=
            CounterType_set (THREAD_POLICY cfg) (deallocation_count_ctr t) 0,
          reallocation_count_ctr :=
            CounterType_set (THREAD_POLICY cfg) (reallocation_count_ctr t) 0\<rparr>
      else t)"

definition BasicMemoryTracker_dump_allocations ::
  "MemoryConfig \<Rightarrow> TrackerState \<Rightarrow> MemoryErrorReport list" where
  "BasicMemoryTracker_dump_allocations cfg t =
     (if ENABLE_TRACKING cfg then
        (let stats = BasicMemoryTracker_get_stats cfg t;
             message = ''Memory Stats - Current: '' @ to_string_uint64 (current_usage stats)
                         @ '' Peak: '' @ to_string_uint64 (peak_usage stats)
                         @ '' Allocs: '' @ to_string_uint64 (allocation_count stats)
         in [memory_report_error MEM_WARNING ''dump_allocations'' ''memory_tracker.h'' 203 message])
      else [])"
subsection \<open>\<open>DetailedMemoryTracker<Config>\<close>: per-pointer records\<close>

definition DetailedMemoryTracker_track_allocation ::
  "MemoryConfig \<Rightarrow> memory_size_t \<Rightarrow> TrackerState \<Rightarrow> TrackerState" where
  "DetailedMemoryTracker_track_allocation cfg sz t =
     (if ENABLE_TRACKING cfg then
        (case CounterType_add (THREAD_POLICY cfg) (current_usage_ctr t) sz of
           (new_usage, current') \<Rightarrow>
        (case CounterType_exchange_if_greater (THREAD_POLICY cfg) (peak_usage_ctr t) new_usage of
           (_, peak') \<Rightarrow>
        (case CounterType_increment (THREAD_POLICY cfg) (allocation_count_ctr t) of
           (_, count') \<Rightarrow>
          (let t1 = t\<lparr>current_usage_ctr := current', peak_usage_ctr := peak',
                       allocation_count_ctr := count'\<rparr>
           in if TRACKING_LEVEL cfg = DETAILED then
                (case CounterType_increment (THREAD_POLICY cfg) (next_allocation_id_ctr t1) of
                   (alloc_id, next') \<Rightarrow> t1\<lparr>next_allocation_id_ctr := next'\<rparr>)
              else t1))))
      else t)"

definition DetailedMemoryTracker_track_allocation_with_ptr ::
  "MemoryConfig \<Rightarrow> pointer \<Rightarrow> memory_size_t \<Rightarrow> string option \<Rightarrow> int \<Rightarrow> string option
     \<Rightarrow> TrackerState \<Rightarrow> TrackerState" where
  "DetailedMemoryTracker_track_allocation_with_ptr cfg ptr sz file line function t =
     (if ENABLE_TRACKING cfg \<and> TRACKING_LEVEL cfg = DETAILED then
        (case CounterType_add (THREAD_POLICY cfg) (current_usage_ctr t) sz of
           (new_usage, current') \<Rightarrow>
        (case CounterType_exchange_if_greater (THREAD_POLICY cfg) (peak_usage_ctr t) new_usage of
           (_, peak') \<Rightarrow>
        (case CounterType_increment (THREAD_POLICY cfg) (allocation_count_ctr t) of
           (_, count') \<Rightarrow>
        (case CounterType_increment (THREAD_POLICY cfg) (next_allocation_id_ctr t) of
           (alloc_id, next') \<Rightarrow>
          (let timestamp = 0
           in t\<lparr>current_usage_ctr := current', peak_usage_ctr := peak',
                allocation_count_ctr := count', next_allocation_id_ctr := next',
                allocations_tbl :=
                  AList.update ptr
                    \<lparr> alloc_size = sz, alloc_file = file, alloc_line = line,
                      alloc_function = function, alloc_timestamp = timestamp,
                      allocation_id = alloc_id \<rparr>
                    (allocations_tbl t)\<rparr>)))))
      else t)"

definition DetailedMemoryTracker_track_deallocation ::
  "MemoryConfig \<Rightarrow> memory_size_t \<Rightarrow> TrackerState \<Rightarrow> TrackerState" where
  "DetailedMemoryTracker_track_deallocation cfg sz t =
     (if ENABLE_TRACKING cfg then
        (case CounterType_sub (THREAD_POLICY cfg) (current_usage_ctr t) sz of
           (_, current') \<Rightarrow>
        (case CounterType_increment (THREAD_POLICY cfg) (deallocation_count_ctr t) of
           (_, count') \<Rightarrow>
             t\<lparr>current_usage_ctr := current', deallocation_count_ctr := count'\<rparr>))
      else t)"

definition DetailedMemoryTracker_track_deallocation_with_ptr ::
  "MemoryConfig \<Rightarrow> pointer \<Rightarrow> TrackerState \<Rightarrow> TrackerState" where
  "DetailedMemoryTracker_track_deallocation_with_ptr cfg ptr t =
     (if ENABLE_TRACKING cfg \<and> TRACKING_LEVEL cfg = DETAILED then
        (let t1 =
           (case map_of (allocations_tbl t) ptr of
              Some info \<Rightarrow>
                (case CounterType_sub (THREAD_POLICY cfg) (current_usage_ctr t) (alloc_size info) of
                   (_, current') \<Rightarrow>
                     t\<lparr>current_usage_ctr := current',
                       allocations_tbl := AList.delete ptr (allocations_tbl t)\<rparr>)
            | None \<Rightarrow> t)
         in (case CounterType_increment (THREAD_POLICY cfg) (deallocation_count_ctr t1) of
               (_, count') \<Rightarrow> t1\<lparr>deallocation_count_ctr := count'\<rparr>))
      else t)"

definition DetailedMemoryTracker_track_reallocation ::
  "MemoryConfig \<Rightarrow> memory_size_t \<Rightarrow> memory_size_t \<Rightarrow> TrackerState \<Rightarrow> TrackerState" where
  "DetailedMemoryTracker_track_reallocation cfg old_size new_size t =
     (if ENABLE_TRACKING cfg then
        (let t1 =
           (if new_size > old_size then
              (case CounterType_add (THREAD_POLICY cfg) (current_usage_ctr t) (new_size - old_size) of
                 (new_usage, current') \<Rightarrow>
              (case CounterType_exchange_if_greater (THREAD_POLICY cfg) (peak_usage_ctr t) new_usage of
                 (_, peak') \<Rightarrow> t\<lparr>current_usage_ctr := current', peak_usage_ctr := peak'\<rparr>))
            else if old_size > new_size then
              (case CounterType_sub (THREAD_POLICY cfg) (current_usage_ctr t) (old_size - new_size) of
                 (_, current') \<Rightarrow> t\<lparr>current_usage_ctr := current'\<rparr>)
            else t)
         in (case CounterType_increment (THREAD_POLICY cfg) (reallocation_count_ctr t1) of
               (_, count') \<Rightarrow> t1\<lparr>reallocation_count_ctr := count'\<rparr>))
      else t)"

definition DetailedMemoryTracker_get_current_usage ::
  "MemoryConfig \<Rightarrow> TrackerState \<Rightarrow> memory_uint64_t" where
  "DetailedMemoryTracker_get_current_usage cfg t =
     (if ENABLE_TRACKING cfg then CounterType_get (THREAD_POLICY cfg) (current_usage_ctr t) else 0)"

definition DetailedMemoryTracker_get_peak_usage ::
  "MemoryConfig \<Rightarrow> TrackerState \<Rightarrow> memory_uint64_t" where
  "DetailedMemoryTracker_get_peak_usage cfg t =
     (if ENABLE_TRACKING cfg then CounterType_get (THREAD_POLICY cfg) (peak_usage_ctr t) else 0)"

definition DetailedMemoryTracker_get_allocation_count ::
  "MemoryConfig \<Rightarrow> TrackerState \<Rightarrow> memory_uint64_t" where
  "DetailedMemoryTracker_get_allocation_count cfg t =
     (if ENABLE_TRACKING cfg then CounterType_get (THREAD_POLICY cfg) (allocation_count_ctr t) else 0)"

definition DetailedMemoryTracker_get_stats :: "MemoryConfig \<Rightarrow> TrackerState \<Rightarrow> MemoryStats" where
  "DetailedMemoryTracker_get_stats cfg t =
     (if ENABLE_TRACKING cfg then
        (let stats = MemoryStats_default;
             stats = stats\<lparr>current_usage := CounterType_get (THREAD_POLICY cfg) (current_usage_ctr t)\<rparr>;
             stats = stats\<lparr>peak_usage := CounterType_get (THREAD_POLICY cfg) (peak_usage_ctr t)\<rparr>;
             stats = stats\<lparr>allocation_count :=
                       CounterType_get (THREAD_POLICY cfg) (allocation_count_ctr t)\<rparr>;
             stats = stats\<lparr>deallocation_count :=
                       CounterType_get (THREAD_POLICY cfg) (deallocation_count_ctr t)\<rparr>;
             stats = stats\<lparr>reallocation_count :=
                       CounterType_get (THREAD_POLICY cfg) (reallocation_count_ctr t)\<rparr>;
             stats = stats\<lparr>total_allocated := allocation_count stats\<rparr>;
             stats = stats\<lparr>total_freed := deallocation_count stats\<rparr>
         in stats)
      else MemoryStats_default)"

definition DetailedMemoryTracker_reset_stats :: "MemoryConfig \<Rightarrow> TrackerState \<Rightarrow> TrackerState" where
  "DetailedMemoryTracker_reset_stats cfg t =
     (if ENABLE_TRACKING cfg then
        (let t1 =
           t\<lparr>current_usage_ctr := CounterType_set (THREAD_POLICY cfg) (current_usage_ctr t) 0,
             peak_usage_ctr := CounterType_set (THREAD_POLICY cfg) (peak_usage_ctr t) 0,
             allocation_count_ctr := CounterType_set (THREAD_POLICY cfg) (allocation_count_ctr t) 0,
             deallocation_count_ctr :=
               CounterType_set (THREAD_POLICY cfg) (deallocation_count_ctr t) 0,
             reallocation_count_ctr :=
               CounterType_set (THREAD_POLICY cfg) (reallocation_count_ctr t) 0,
             next_allocation_id_ctr :=
               CounterType_set (THREAD_POLICY cfg) (next_allocation_id_ctr t) 0\<rparr>
         in if TRACKING_LEVEL cfg = DETAILED then t1\<lparr>allocations_tbl := []\<rparr> else t1)
      else t)"

text \<open>
  The body of the loop in \<open>dump_allocations\<close>: the report made for one record, \<open>severity\<close>
  being the first argument of \<open>_memory_report_error\<close>.
\<close>

definition report_leak :: "MemoryErrorType \<Rightarrow> AllocationInfo \<Rightarrow> MemoryErrorReport" where
  "report_leak severity info =
     (let message = ''Leak: '' @ to_string_uint64 (alloc_size info) @ '' bytes at ''
                      @ (case alloc_file info of Some f \<Rightarrow> f | None \<Rightarrow> ''unknown'')
                      @ '':'' @ to_string_int (alloc_line info)
      in memory_report_error severity
           (case alloc_function info of Some f \<Rightarrow> f | None \<Rightarrow> ''unknown'')
           (case alloc_file info of Some f \<Rightarrow> f | None \<Rightarrow> ''unknown'')
           (alloc_line info) message)"

text \<open>
  \<open>dump_allocations\<close>. The loop passes \<open>MemoryErrorType::WARNING\<close> as the severity. Where the
  \<open>if constexpr\<close> keeps the body, that name has to denote an enumerator for the function
  to mean anything: the result is \<open>None\<close> when it denotes none (the function is ill-formed
  and sends no report), and otherwise the reports the loop sends, one for each record
  of the table.
\<close>

definition DetailedMemoryTracker_dump_allocations ::
  "MemoryConfig \<Rightarrow> TrackerState \<Rightarrow> MemoryErrorReport list option" where
  "DetailedMemoryTracker_dump_allocations cfg t =
     (if ENABLE_TRACKING cfg \<and> TRACKING_LEVEL cfg = DETAILED then
        (case MemoryErrorType_enumerator ''WARNING'' of
           Some severity \<Rightarrow> Some (map (\<lambda>(ptr, info). report_leak severity info) (allocations_tbl t))
         | None \<Rightarrow> None)
      else Some [])"

subsection \<open>\<open>MemoryTrackerType<Config>\<close>: the tracker a configuration selects\<close>

definition TrackerType_track_allocation ::
  "MemoryConfig \<Rightarrow> memory_size_t \<Rightarrow> TrackerState \<Rightarrow> TrackerState" where
  "TrackerType_track_allocation cfg sz t =
     (if TRACKING_LEVEL cfg = TL_NONE then MemoryTracker_track_allocation sz t
      else if TRACKING_LEVEL cfg = BASIC then BasicMemoryTracker_track_allocation cfg sz t
      else DetailedMemoryTracker_track_allocation cfg sz t)"

definition TrackerType_track_deallocation ::
  "MemoryConfig \<Rightarrow> memory_size_t \<Rightarrow> TrackerState \<Rightarrow> TrackerState" where
  "TrackerType_track_deallocation cfg sz t =
     (if TRACKING_LEVEL cfg = TL_NONE then MemoryTracker_track_deallocation sz t
      else if TRACKING_LEVEL cfg = BASIC then BasicMemoryTracker_track_deallocation cfg sz t
      else DetailedMemoryTracker_track_deallocation cfg sz t)"

definition TrackerType_track_reallocation ::
  "MemoryConfig \<Rightarrow> memory_size_t \<Rightarrow> memory_size_t \<Rightarrow> TrackerState \<Rightarrow> TrackerState" where
  "TrackerType_track_reallocation cfg old_size new_size t =
     (if TRACKING_LEVEL cfg = TL_NONE then MemoryTracker_track_reallocation old_size new_size t
      else if TRACKING_LEVEL cfg = BASIC
        then BasicMemoryTracker_track_reallocation cfg old_size new_size t
      else DetailedMemoryTracker_track_reallocation cfg old_size new_size t)"

definition TrackerType_get_current_usage :: "MemoryConfig \<Rightarrow> TrackerState \<Rightarrow> memory_uint64_t" where
  "TrackerType_get_current_usage cfg t =
     (if TRACKING_LEVEL cfg = TL_NONE then MemoryTracker_get_current_usage t
      else if TRACKING_LEVEL cfg = BASIC then BasicMemoryTracker_get_current_usage cfg t
      else DetailedMemoryTracker_get_current_usage cfg t)"

definition TrackerType_get_peak_usage :: "MemoryConfig \<Rightarrow> TrackerState \<Rightarrow> memory_uint64_t" where
  "TrackerType_get_peak_usage cfg t =
     (if TRACKING_LEVEL cfg = TL_NONE then MemoryTracker_get_peak_usage t
      else if TRACKING_LEVEL cfg = BASIC then BasicMemoryTracker_get_peak_usage cfg t
      else DetailedMemoryTracker_get_peak_usage cfg t)"

definition TrackerType_get_allocation_count :: "MemoryConfig \<Rightarrow> TrackerState \<Rightarrow> memory_uint64_t" where
  "TrackerType_get_allocation_count cfg t =
     (if TRACKING_LEVEL cfg = TL_NONE then MemoryTracker_get_allocation_count t
      else if TRACKING_LEVEL cfg = BASIC then BasicMemoryTracker_get_allocation_count cfg t
      else DetailedMemoryTracker_get_allocation_count cfg t)"

definition TrackerType_get_stats :: "MemoryConfig \<Rightarrow> TrackerState \<Rightarrow> MemoryStats" where
  "TrackerType_get_stats cfg t =
     (if TRACKING_LEVEL cfg = TL_NONE then MemoryTracker_get_stats t
      else if TRACKING_LEVEL cfg = BASIC then BasicMemoryTracker_get_stats cfg t
      else DetailedMemoryTracker_get_stats cfg t)"

definition TrackerType_reset_stats :: "MemoryConfig \<Rightarrow> TrackerState \<Rightarrow> TrackerState" where
  "TrackerType_reset_stats cfg t =
     (if TRACKING_LEVEL cfg = TL_NONE then MemoryTracker_reset_stats t
      else if TRACKING_LEVEL cfg = BASIC then BasicMemoryTracker_reset_stats cfg t
      else DetailedMemoryTracker_reset_stats cfg t)"

definition TrackerType_dump_allocations ::
  "MemoryConfig \<Rightarrow> TrackerState \<Rightarrow> MemoryErrorReport list option" where
  "TrackerType_dump_allocations cfg t =
     (if TRACKING_LEVEL cfg = TL_NONE then Some (MemoryTracker_dump_allocations t)
      else if TRACKING_LEVEL cfg = BASIC then Some (BasicMemoryTracker_dump_allocations cfg t)
      else DetailedMemoryTracker_dump_allocations cfg t)"

subsection \<open>Histories of tracker calls\<close>

text \<open>
  A call of one of the three tracking functions every tracker has, and a history of such
  calls applied from the left.
\<close>

datatype TrackerCall =
  TrackAllocation memory_size_t
  | TrackDeallocation memory_size_t
  | TrackReallocation memory_size_t memory_size_t

fun TrackerType_call :: "MemoryConfig \<Rightarrow> TrackerCall \<Rightarrow> TrackerState \<Rightarrow> TrackerState" where
  "TrackerType_call cfg (TrackAllocation sz) t = TrackerType_track_allocation cfg sz t"
| "TrackerType_call cfg (TrackDeallocation sz) t = TrackerType_track_deallocation cfg sz t"
| "TrackerType_call cfg (TrackReallocation old_size new_size) t =
     TrackerType_track_reallocation cfg old_size new_size t"

fun TrackerType_run :: "MemoryConfig \<Rightarrow> TrackerCall list \<Rightarrow> TrackerState \<Rightarrow> TrackerState" where
  "TrackerType_run cfg [] t = t"
| "TrackerType_run cfg (c # cs) t = TrackerType_run cfg cs (TrackerType_call cfg c t)"

text \<open>
  The sizes of the allocations outstanding after a call, and a correctly paired history:
  every deallocation gives the size of an outstanding allocation, and every reallocation
  gives as old size the size of an outstanding allocation, which then has the new size.
\<close>

fun outstanding_after :: "memory_size_t list \<Rightarrow> TrackerCall \<Rightarrow> memory_size_t list" where
  "outstanding_after out (TrackAllocation sz) = sz # out"
| "outstanding_after out (TrackDeallocation sz) = remove1 sz out"
| "outstanding_after out (TrackReallocation old_size new_size) = new_size # remove1 old_size out"

fun correctly_paired :: "memory_size_t list \<Rightarrow> TrackerCall list \<Rightarrow> bool" where
  "correctly_paired out [] = True"
| "correctly_paired out (TrackAllocation sz # cs) =
     correctly_paired (outstanding_after out (TrackAllocation sz)) cs"
| "correctly_paired out (TrackDeallocation sz # cs) =
     (sz \<in> set out \<and> correctly_paired (outstanding_after out (TrackDeallocation sz)) cs)"
| "correctly_paired out (TrackReallocation old_size new_size # cs) =
     (old_size \<in> set out
      \<and> correctly_paired (outstanding_after out (TrackReallocation old_size new_size)) cs)"

text \<open>The outstanding sizes add up to less than \<open>2 ^ 64\<close> before and after every call.\<close>

fun total_fits :: "memory_size_t list \<Rightarrow> TrackerCall list \<Rightarrow> bool" where
  "total_fits out [] = (sum_list (map unat out) < 2 ^ 64)"
| "total_fits out (c # cs) =
     (sum_list (map unat out) < 2 ^ 64 \<and> total_fits (outstanding_after out c) cs)"

text \<open>
  The calls that change a \<open>DetailedMemoryTracker\<close>, and the records its table should hold
  after a history: those entered by \<open>track_allocation_with_ptr\<close> and not removed since by
  \<open>track_deallocation_with_ptr\<close> or \<open>reset_stats\<close>. A record is kept here as its size,
  file, line and function.
\<close>

datatype DetailedCall =
  AllocationWithPtr pointer memory_size_t "string option" int "string option"
  | DeallocationWithPtr pointer
  | Allocation memory_size_t
  | Deallocation memory_size_t
  | Reallocation memory_size_t memory_size_t
  | ResetStats

fun DetailedMemoryTracker_call :: "MemoryConfig \<Rightarrow> DetailedCall \<Rightarrow> TrackerState \<Rightarrow> TrackerState" where
  "DetailedMemoryTracker_call cfg (AllocationWithPtr ptr sz file line function) t =
     DetailedMemoryTracker_track_allocation_with_ptr cfg ptr sz file line function t"
| "DetailedMemoryTracker_call cfg (DeallocationWithPtr ptr) t =
     DetailedMemoryTracker_track_deallocation_with_ptr cfg ptr t"
| "DetailedMemoryTracker_call cfg (Allocation sz) t = DetailedMemoryTracker_track_allocation cfg sz t"
| "DetailedMemoryTracker_call cfg (Deallocation sz) t =
     DetailedMemoryTracker_track_deallocation cfg sz t"
| "DetailedMemoryTracker_call cfg (Reallocation old_size new_size) t =
     DetailedMemoryTracker_track_reallocation cfg old_size new_size t"
| "DetailedMemoryTracker_call cfg ResetStats t = DetailedMemoryTracker_reset_stats cfg t"

fun DetailedMemoryTracker_run :: "MemoryConfig \<Rightarrow> DetailedCall list \<Rightarrow> TrackerState \<Rightarrow> TrackerState" where
  "DetailedMemoryTracker_run cfg [] t = t"
| "DetailedMemoryTracker_run cfg (c # cs) t =
     DetailedMemoryTracker_run cfg cs (DetailedMemoryTracker_call cfg c t)"

type_synonym leak_record = "memory_size_t \<times> string option \<times> int \<times> string option"

fun registered_after :: "(pointer \<rightharpoonup> leak_record) \<Rightarrow> DetailedCall list \<Rightarrow> (pointer \<rightharpoonup> leak_record)" where
  "registered_after reg [] = reg"
| "registered_after reg (AllocationWithPtr ptr sz file line function # cs) =
     registered_after (reg(ptr \<mapsto> (sz, file, line, function))) cs"
| "registered_after reg (DeallocationWithPtr ptr # cs) = registered_after (reg(ptr := None)) cs"
| "registered_after reg (ResetStats # cs) = registered_after Map.empty cs"
| "registered_after reg (c # cs) = registered_after reg cs"

text \<open>The leak entry for a record: a warning that carries its size and source location.\<close>

fun leak_entry :: "leak_record \<Rightarrow> MemoryErrorReport" where
  "leak_entry (sz, file, line, function) =
     \<lparr> report_type = MEM_WARNING,
       report_function = (case function of Some f \<Rightarrow> f | None \<Rightarrow> ''unknown''),
       report_file = (case file of Some f \<Rightarrow> f | None \<Rightarrow> ''unknown''),
       report_line = line,
       report_message = ''Leak: '' @ to_string_uint64 sz @ '' bytes at ''
         @ (case file of Some f \<Rightarrow> f | None \<Rightarrow> ''unknown'') @ '':'' @ to_string_int line \<rparr>"

text \<open>What a leak entry shows of an \<open>AllocationInfo\<close>.\<close>

definition record_of :: "AllocationInfo \<Rightarrow> leak_record" where
  "record_of info = (alloc_size info, alloc_file info, alloc_line info, alloc_function info)"

text \<open>
  The values of \<open>current_usage_\<close> at the quiescent points of a history: before the first
  call and after each call.
\<close>

fun usage_history :: "MemoryConfig \<Rightarrow> TrackerCall list \<Rightarrow> TrackerState \<Rightarrow> memory_uint64_t list" where
  "usage_history cfg [] t = [current_usage_ctr t]"
| "usage_history cfg (c # cs) t =
     current_usage_ctr t # usage_history cfg cs (TrackerType_call cfg c t)"
section \<open>The allocation engine (memory\_manager.h)\<close>

text \<open>
  The state an engine call works on. \<open>heap\<close> gives the 64-bit word stored at an address,
  for the words the engine reads and writes through a \<open>memory_uint64_t*\<close>: the size header
  and the element count ahead of a padded block. The bytes of the user's data are not
  part of the state. \<open>system_calls\<close> lists the calls made to the system allocator, oldest
  first. The result of a system call is an argument of the function that makes it:
  the address returned (\<open>nullptr\<close> when the call fails).
\<close>

datatype SystemCall =
  Malloc memory_size_t
  | Calloc memory_size_t memory_size_t
  | Realloc pointer memory_size_t
  | Free pointer

record MemoryState =
  heap :: "pointer \<Rightarrow> memory_uint64_t"
  tracker :: TrackerState
  error_sink :: "MemoryErrorReport list"
  system_calls :: "SystemCall list"

definition MemoryState_initial :: MemoryState where
  "MemoryState_initial =
     \<lparr> heap = (\<lambda>a. 0), tracker = TrackerState_initial, error_sink = [], system_calls = [] \<rparr>"

text \<open>
  \<open>std::malloc\<close> leaves the contents of the block as they are; \<open>std::calloc\<close> returns a
  block of zeros; \<open>std::realloc\<close> returning \<open>result\<close> has carried the first \<open>kept\<close> bytes of
  the old block over to the new one; \<open>std::free\<close> changes no word.
\<close>

definition std_malloc :: "memory_size_t \<Rightarrow> pointer \<Rightarrow> MemoryState \<Rightarrow> MemoryState" where
  "std_malloc n result st = st\<lparr>system_calls := system_calls st @ [Malloc n]\<rparr>"

definition std_calloc :: "memory_size_t \<Rightarrow> memory_size_t \<Rightarrow> pointer \<Rightarrow> MemoryState \<Rightarrow> MemoryState" where
  "std_calloc num n result st =
     st\<lparr>heap := (\<lambda>a. if result \<noteq> nullptr \<and> a - result < num * n then 0 else heap st a),
       system_calls := system_calls st @ [Calloc num n]\<rparr>"

definition std_realloc ::
  "pointer \<Rightarrow> memory_size_t \<Rightarrow> pointer \<Rightarrow> memory_size_t \<Rightarrow> MemoryState \<Rightarrow> MemoryState" where
  "std_realloc mem n result kept st =
     st\<lparr>heap := (\<lambda>a. if result \<noteq> nullptr \<and> a - result < kept
                      then heap st (mem + (a - result)) else heap st a),
       system_calls := system_calls st @ [Realloc mem n]\<rparr>"

definition std_free :: "pointer \<Rightarrow> MemoryState \<Rightarrow> MemoryState" where
  "std_free mem st = st\<lparr>system_calls := system_calls st @ [Free mem]\<rparr>"

definition report :: "MemoryErrorReport \<Rightarrow> MemoryState \<Rightarrow> MemoryState" where
  "report r st = st\<lparr>error_sink := error_sink st @ [r]\<rparr>"

subsection \<open>\<open>MemoryManager<Config>\<close>, the primary template\<close>

definition should_use_padding :: "Platform \<Rightarrow> MemoryConfig \<Rightarrow> bool \<Rightarrow> bool" where
  "should_use_padding plat cfg p_pad_align =
     (if PADDING_POLICY cfg = PP_NONE then False
      else if PADDING_POLICY cfg = ALWAYS then True
      else if PADDING_POLICY cfg = DEBUG_ONLY then MEMORY_DEBUG_ENABLED plat
      else p_pad_align)"

definition get_size_ptr :: "pointer \<Rightarrow> pointer" where
  "get_size_ptr p_mem = p_mem + SIZE_OFFSET"

definition get_element_count_ptr :: "Platform \<Rightarrow> pointer \<Rightarrow> pointer" where
  "get_element_count_ptr plat p_ptr = p_ptr - DATA_OFFSET plat + ELEMENT_OFFSET plat"

text \<open>
  \<open>alloc_static<p_ensure_zero>(p_bytes, p_pad_align)\<close>; \<open>mem\<close> is what \<open>std::malloc\<close> or
  \<open>std::calloc\<close> returns. The result is the pointer returned and the state afterwards.
\<close>

definition alloc_static ::
  "Platform \<Rightarrow> MemoryConfig \<Rightarrow> bool \<Rightarrow> memory_size_t \<Rightarrow> bool \<Rightarrow> pointer \<Rightarrow> MemoryState
     \<Rightarrow> pointer \<times> MemoryState" where
  "alloc_static plat cfg p_ensure_zero p_bytes p_pad_align mem st =
     (let prepad = should_use_padding plat cfg p_pad_align;
          st1 = (if p_ensure_zero
                 then std_calloc 1 (p_bytes + (if prepad then DATA_OFFSET plat else 0)) mem st
                 else std_malloc (p_bytes + (if prepad then DATA_OFFSET plat else 0)) mem st)
      in if mem = nullptr then
           (nullptr, report (MEMORY_ERROR ''alloc_static'' ''memory_manager.h'' 79 ''Null pointer: mem'') st1)
         else if prepad then
           (let s8 = mem;
                s = get_size_ptr s8;
                st2 = st1\<lparr>heap := (heap st1)(s := p_bytes)\<rparr>;
                st3 = st2\<lparr>tracker := TrackerType_track_allocation cfg p_bytes (tracker st2)\<rparr>
            in (s8 + DATA_OFFSET plat, st3))
         else
           (mem, st1\<lparr>tracker := TrackerType_track_allocation cfg p_bytes (tracker st1)\<rparr>))"

definition alloc_static_zeroed ::
  "Platform \<Rightarrow> MemoryConfig \<Rightarrow> memory_size_t \<Rightarrow> bool \<Rightarrow> pointer \<Rightarrow> MemoryState
     \<Rightarrow> pointer \<times> MemoryState" where
  "alloc_static_zeroed plat cfg p_bytes p_pad_align mem st =
     alloc_static plat cfg True p_bytes p_pad_align mem st"

text \<open>
  \<open>realloc_static(p_memory, p_bytes, p_pad_align)\<close>; \<open>result\<close> is what the one system call
  that allocates (\<open>std::malloc\<close> or \<open>std::realloc\<close>) returns, and \<open>kept\<close> the number of bytes
  \<open>std::realloc\<close> carries over.
\<close>

definition realloc_static ::
  "Platform \<Rightarrow> MemoryConfig \<Rightarrow> pointer \<Rightarrow> memory_size_t \<Rightarrow> bool \<Rightarrow> pointer \<Rightarrow> memory_size_t
     \<Rightarrow> MemoryState \<Rightarrow> pointer \<times> MemoryState" where
  "realloc_static plat cfg p_memory p_bytes p_pad_align result kept st =
     (if p_memory = nullptr then alloc_static plat cfg False p_bytes p_pad_align result st
      else
        (let mem = p_memory;
             prepad = should_use_padding plat cfg p_pad_align
         in if prepad then
              (let mem = mem - DATA_OFFSET plat;
                   s = get_size_ptr mem;
                   old_size = heap st s;
                   st1 = st\<lparr>tracker := TrackerType_track_reallocation cfg old_size p_bytes (tracker st)\<rparr>
               in if p_bytes = 0 then (nullptr, std_free mem st1)
                  else
                    (let st2 = st1\<lparr>heap := (heap st1)(s := p_bytes)\<rparr>;
                         st3 = std_realloc mem (p_bytes + DATA_OFFSET plat) result kept st2;
                         mem = result
                     in if mem = nullptr then
                          (nullptr,
                           report (MEMORY_ERROR ''realloc_static'' ''memory_manager.h'' 129
                                     ''Null pointer: mem'') st3)
                        else
                          (let s = get_size_ptr mem;
                               st4 = st3\<lparr>heap := (heap st3)(s := p_bytes)\<rparr>
                           in (mem + DATA_OFFSET plat, st4))))
            else
              (let st1 = st\<lparr>tracker := TrackerType_track_reallocation cfg 0 p_bytes (tracker st)\<rparr>;
                   st2 = std_realloc mem p_bytes result kept st1;
                   mem = result
               in if mem = nullptr \<and> p_bytes > 0 then
                    (nullptr,
                     report (MEMORY_ERROR ''realloc_static'' ''memory_manager.h'' 143
                               ''Condition failed: mem == nullptr && p_bytes > 0'') st2)
                  else (mem, st2))))"

definition free_static :: "Platform \<Rightarrow> MemoryConfig \<Rightarrow> pointer \<Rightarrow> bool \<Rightarrow> MemoryState \<Rightarrow> MemoryState" where
  "free_static plat cfg p_ptr p_pad_align st =
     (if p_ptr = nullptr then
        report (MEMORY_ERROR ''free_static'' ''memory_manager.h'' 151 ''Null pointer: p_ptr'') st
      else
        (let mem = p_ptr;
             prepad = should_use_padding plat cfg p_pad_align
         in if prepad then
              (let mem = mem - DATA_OFFSET plat;
                   s = get_size_ptr mem;
                   sz = heap st s;
                   st1 = st\<lparr>tracker := TrackerType_track_deallocation cfg sz (tracker st)\<rparr>
               in std_free mem st1)
            else
              (let st1 = st\<lparr>tracker := TrackerType_track_deallocation cfg 0 (tracker st)\<rparr>
               in std_free mem st1)))"

definition get_mem_usage :: "MemoryConfig \<Rightarrow> MemoryState \<Rightarrow> memory_uint64_t" where
  "get_mem_usage cfg st = TrackerType_get_current_usage cfg (tracker st)"

definition get_mem_max_usage :: "MemoryConfig \<Rightarrow> MemoryState \<Rightarrow> memory_uint64_t" where
  "get_mem_max_usage cfg st = TrackerType_get_peak_usage cfg (tracker st)"

definition get_memory_stats :: "MemoryConfig \<Rightarrow> MemoryState \<Rightarrow> MemoryStats" where
  "get_memory_stats cfg st = TrackerType_get_stats cfg (tracker st)"

definition reset_memory_stats :: "MemoryConfig \<Rightarrow> MemoryState \<Rightarrow> MemoryState" where
  "reset_memory_stats cfg st = st\<lparr>tracker := TrackerType_reset_stats cfg (tracker st)\<rparr>"

definition dump_memory_allocations :: "MemoryConfig \<Rightarrow> MemoryState \<Rightarrow> MemoryState option" where
  "dump_memory_allocations cfg st =
     (case TrackerType_dump_allocations cfg (tracker st) of
        Some reports \<Rightarrow> Some (st\<lparr>error_sink := error_sink st @ reports\<rparr>)
      | None \<Rightarrow> None)"

subsection \<open>\<open>MemoryManager<HighPerformanceConfig>\<close>, the explicit specialization\<close>

definition HighPerformance_alloc_static ::
  "bool \<Rightarrow> memory_size_t \<Rightarrow> bool \<Rightarrow> pointer \<Rightarrow> MemoryState \<Rightarrow> pointer \<times> MemoryState" where
  "HighPerformance_alloc_static p_ensure_zero p_bytes p_pad_align mem st =
     (if p_ensure_zero then (mem, std_calloc 1 p_bytes mem st)
      else (mem, std_malloc p_bytes mem st))"

definition HighPerformance_realloc_static ::
  "pointer \<Rightarrow> memory_size_t \<Rightarrow> bool \<Rightarrow> pointer \<Rightarrow> memory_size_t \<Rightarrow> MemoryState
     \<Rightarrow> pointer \<times> MemoryState" where
  "HighPerformance_realloc_static p_memory p_bytes p_pad_align result kept st =
     (result, std_realloc p_memory p_bytes result kept st)"

definition HighPerformance_free_static :: "pointer \<Rightarrow> bool \<Rightarrow> MemoryState \<Rightarrow> MemoryState" where
  "HighPerformance_free_static p_ptr p_pad_align st = std_free p_ptr st"

subsection \<open>\<open>MemoryManager<Config>\<close> as a configuration instantiates it\<close>

definition MemoryManager_alloc_static ::
  "Platform \<Rightarrow> MemoryConfig \<Rightarrow> bool \<Rightarrow> memory_size_t \<Rightarrow> bool \<Rightarrow> pointer \<Rightarrow> MemoryState
     \<Rightarrow> pointer \<times> MemoryState" where
  "MemoryManager_alloc_static plat cfg p_ensure_zero p_bytes p_pad_align mem st =
     (if cfg = HighPerformanceConfig
      then HighPerformance_alloc_static p_ensure_zero p_bytes p_pad_align mem st
      else alloc_static plat cfg p_ensure_zero p_bytes p_pad_align mem st)"

definition MemoryManager_free_static ::
  "Platform \<Rightarrow> MemoryConfig \<Rightarrow> pointer \<Rightarrow> bool \<Rightarrow> MemoryState \<Rightarrow> MemoryState" where
  "MemoryManager_free_static plat cfg p_ptr p_pad_align st =
     (if cfg = HighPerformanceConfig then HighPerformance_free_static p_ptr p_pad_align st
      else free_static plat cfg p_ptr p_pad_align st)"

subsection \<open>Allocating a list of blocks and freeing a list of pointers\<close>

text \<open>
  \<open>alloc_all\<close> calls \<open>alloc_static\<close> once for each pair of a size and the address the system
  allocator returns for it, and gives the pointers returned, in order. \<open>free_all\<close> calls
  \<open>free_static\<close> on each pointer of a list in turn.
\<close>

fun alloc_all ::
  "Platform \<Rightarrow> MemoryConfig \<Rightarrow> bool \<Rightarrow> (memory_size_t \<times> pointer) list \<Rightarrow> MemoryState
     \<Rightarrow> pointer list \<times> MemoryState" where
  "alloc_all plat cfg p_pad_align [] st = ([], st)"
| "alloc_all plat cfg p_pad_align ((p_bytes, mem) # rest) st =
     (case alloc_static plat cfg False p_bytes p_pad_align mem st of
        (p, st1) \<Rightarrow>
          (case alloc_all plat cfg p_pad_align rest st1 of (ps, st2) \<Rightarrow> (p # ps, st2)))"

fun free_all :: "Platform \<Rightarrow> MemoryConfig \<Rightarrow> bool \<Rightarrow> pointer list \<Rightarrow> MemoryState \<Rightarrow> MemoryState" where
  "free_all plat cfg p_pad_align [] st = st"
| "free_all plat cfg p_pad_align (p # ps) st =
     free_all plat cfg p_pad_align ps (free_static plat cfg p p_pad_align st)"

subsection \<open>Histories of engine calls\<close>

text \<open>
  A call of \<open>alloc_static\<close>, \<open>realloc_static\<close> or \<open>free_static\<close> with its arguments and with
  what the system allocator returns to it, and a history of such calls run from the left.
\<close>

datatype EngineCall =
  AllocStatic bool memory_size_t bool pointer
  | ReallocStatic pointer memory_size_t bool pointer memory_size_t
  | FreeStatic pointer bool

fun engine_call :: "Platform \<Rightarrow> MemoryConfig \<Rightarrow> EngineCall \<Rightarrow> MemoryState \<Rightarrow> MemoryState" where
  "engine_call plat cfg (AllocStatic p_ensure_zero p_bytes p_pad_align mem) st =
     snd (alloc_static plat cfg p_ensure_zero p_bytes p_pad_align mem st)"
| "engine_call plat cfg (ReallocStatic p_memory p_bytes p_pad_align result kept) st =
     snd (realloc_static plat cfg p_memory p_bytes p_pad_align result kept st)"
| "engine_call plat cfg (FreeStatic p_ptr p_pad_align) st = free_static plat cfg p_ptr p_pad_align st"

fun engine_run :: "Platform \<Rightarrow> MemoryConfig \<Rightarrow> EngineCall list \<Rightarrow> MemoryState \<Rightarrow> MemoryState" where
  "engine_run plat cfg [] st = st"
| "engine_run plat cfg (c # cs) st = engine_run plat cfg cs (engine_call plat cfg c st)"

text \<open>
  A call that works on other blocks than the live padded block starting at \<open>mem\<close>: the
  pointer it frees or reallocates is not the user pointer \<open>mem + DATA_OFFSET\<close> of that
  block, and the memory the system allocator hands to it (the block of the size
  requested, and the bytes \<open>std::realloc\<close> carries over) neither starts at \<open>mem\<close> nor
  contains it.
\<close>

fun on_other_blocks :: "Platform \<Rightarrow> MemoryConfig \<Rightarrow> pointer \<Rightarrow> EngineCall \<Rightarrow> bool" where
  "on_other_blocks plat cfg mem (AllocStatic p_ensure_zero p_bytes p_pad_align result) =
     (result \<noteq> mem
      \<and> \<not> mem - result
            < p_bytes + (if should_use_padding plat cfg p_pad_align then DATA_OFFSET plat else 0))"
| "on_other_blocks plat cfg mem (ReallocStatic p_memory p_bytes p_pad_align result kept) =
     (p_memory \<noteq> mem + DATA_OFFSET plat \<and> result \<noteq> mem \<and> \<not> mem - result < kept)"
| "on_other_blocks plat cfg mem (FreeStatic p_ptr p_pad_align) = (p_ptr \<noteq> mem + DATA_OFFSET plat)"

subsection \<open>Two builds\<close>

text \<open>
  A debug build and a release build (\<open>NDEBUG\<close> defined) for a platform on which
  \<open>memory_uint64_t\<close> is aligned to 8 bytes and \<open>std::max_align_t\<close> to 16.
\<close>

definition debug_build :: Platform where
  "debug_build = \<lparr> MEMORY_DEBUG_ENABLED = True, alignof_uint64 = 8, alignof_max_align = 16 \<rparr>"

definition release_build :: Platform where
  "release_build = \<lparr> MEMORY_DEBUG_ENABLED = False, alignof_uint64 = 8, alignof_max_align = 16 \<rparr>"

section \<open>Properties of the counter primitive\<close>

lemma exchange_if_greater_loop_not_greater:
  "\<not> p_value > current \<Longrightarrow>
     exchange_if_greater_loop sched value current p_value = Some (current, value)"
  by (cases sched) simp_all

lemma exchange_if_greater_loop_fair:
  "False \<in> set sched \<Longrightarrow>
     exchange_if_greater_loop sched value value p_value = Some (max value p_value, max value p_value)"
proof (induction sched)
  case Nil
  then show ?case by simp
next
  case (Cons spurious sched)
  show ?case
  proof (cases "p_value > value")
    case False
    then show ?thesis by (simp add: max_def)
  next
    case greater: True
    show ?thesis
    proof (cases spurious)
      case True
      with Cons.prems have "False \<in> set sched" by auto
      with Cons.IH greater True show ?thesis
        by (simp add: compare_exchange_weak_def)
    next
      case False
      with greater show ?thesis
        by (auto simp: compare_exchange_weak_def max_def)
    qed
  qed
qed

lemma CounterType_add_eq [simp]:
  "CounterType_add policy value p_value = (value + p_value, value + p_value)"
  by (cases policy)
    (simp_all add: CounterType_add_def SafeNumeric_NONE_add_def SafeNumeric_ATOMIC_add_def
      atomic_fetch_add_def)

lemma CounterType_sub_eq [simp]:
  "CounterType_sub policy value p_value = (value - p_value, value - p_value)"
  by (cases policy)
    (simp_all add: CounterType_sub_def SafeNumeric_NONE_sub_def SafeNumeric_ATOMIC_sub_def
      atomic_fetch_sub_def)

lemma CounterType_increment_eq [simp]:
  "CounterType_increment policy value = (value + 1, value + 1)"
  by (cases policy)
    (simp_all add: CounterType_increment_def SafeNumeric_NONE_increment_def
      SafeNumeric_ATOMIC_increment_def atomic_fetch_add_def)

lemma CounterType_get_eq [simp]: "CounterType_get policy value = value"
  by (cases policy)
    (simp_all add: CounterType_get_def SafeNumeric_NONE_get_def SafeNumeric_ATOMIC_get_def
      atomic_load_def)

lemma CounterType_set_eq [simp]: "CounterType_set policy value p_value = p_value"
  by (cases policy)
    (simp_all add: CounterType_set_def SafeNumeric_NONE_set_def SafeNumeric_ATOMIC_set_def
      atomic_store_def)

lemma SafeNumeric_ATOMIC_exchange_if_greater_first_attempt:
  "SafeNumeric_ATOMIC_exchange_if_greater [False] value p_value =
     Some (max value p_value, max value p_value)"
  unfolding SafeNumeric_ATOMIC_exchange_if_greater_def atomic_load_def
  by (rule exchange_if_greater_loop_fair) simp

lemma CounterType_exchange_if_greater_eq [simp]:
  "CounterType_exchange_if_greater policy value p_value = (max value p_value, max value p_value)"
  by (cases policy)
    (auto simp: CounterType_exchange_if_greater_def SafeNumeric_NONE_exchange_if_greater_def
      SafeNumeric_ATOMIC_exchange_if_greater_first_attempt max_def Let_def)

text \<open>
  C5. \<open>exchange_if_greater(v)\<close> on a counter holding \<open>c\<close>: under the unsynchronized policy
  the stored value becomes \<open>v\<close> exactly when \<open>v > c\<close>, and the value returned is the stored
  value, \<open>max c v\<close>. Under the atomic policy, run by one thread, the same holds for every
  schedule of spurious compare-and-swap failures in which some attempt is not spurious;
  when \<open>v\<close> does not exceed \<open>c\<close> the loop body is never entered and the result is \<open>c\<close> for
  every schedule.
\<close>

theorem exchange_if_greater_max:
  "SafeNumeric_NONE_exchange_if_greater c v = (max c v, max c v)
   \<and> (snd (SafeNumeric_NONE_exchange_if_greater c v) = v \<longleftrightarrow> v > c \<or> v = c)
   \<and> (snd (SafeNumeric_NONE_exchange_if_greater c v) \<noteq> c \<longleftrightarrow> v > c)
   \<and> (False \<in> set sched \<longrightarrow>
        SafeNumeric_ATOMIC_exchange_if_greater sched c v = Some (max c v, max c v))
   \<and> (\<not> v > c \<longrightarrow> SafeNumeric_ATOMIC_exchange_if_greater sched c v = Some (c, c))"
  by (auto simp: SafeNumeric_NONE_exchange_if_greater_def SafeNumeric_ATOMIC_exchange_if_greater_def
      atomic_load_def exchange_if_greater_loop_fair exchange_if_greater_loop_not_greater
      max_def Let_def)

theorem exchange_if_greater_max_witness:
  "False \<in> set [True, True, False]
   \<and> SafeNumeric_ATOMIC_exchange_if_greater [True, True, False] 7 9 = Some (9, 9)
   \<and> \<not> (3 :: memory_uint64_t) > 9
   \<and> SafeNumeric_ATOMIC_exchange_if_greater [] 9 3 = Some (9, 9)
   \<and> SafeNumeric_NONE_exchange_if_greater 7 9 = (9, 9)"
  using exchange_if_greater_max [of 7 9 "[True, True, False]"]
    exchange_if_greater_max [of 9 3 "[]"]
  by simp

section \<open>Properties of the tracking strategies\<close>

lemmas BasicMemoryTracker_defs =
  BasicMemoryTracker_track_allocation_def BasicMemoryTracker_track_deallocation_def
  BasicMemoryTracker_track_reallocation_def

lemmas DetailedMemoryTracker_defs =
  DetailedMemoryTracker_track_allocation_def DetailedMemoryTracker_track_deallocation_def
  DetailedMemoryTracker_track_reallocation_def

lemmas MemoryTracker_defs =
  MemoryTracker_track_allocation_def MemoryTracker_track_deallocation_def
  MemoryTracker_track_reallocation_def

lemmas TrackerType_defs =
  TrackerType_track_allocation_def TrackerType_track_deallocation_def
  TrackerType_track_reallocation_def

text \<open>
  C4. With tracking enabled, \<open>BasicMemoryTracker::track_reallocation(old_size, new_size)\<close>
  adds \<open>new_size - old_size\<close> to \<open>current_usage_\<close> when the block grows and then raises
  \<open>peak_usage_\<close> to the new usage if that is greater; it subtracts \<open>old_size - new_size\<close>
  when the block shrinks; it leaves \<open>current_usage_\<close> alone when the sizes are equal; and
  it adds 1 to \<open>reallocation_count_\<close> in each case. The counters are 64-bit, so the sums
  are modulo \<open>2 ^ 64\<close>.
\<close>

theorem track_reallocation_delta:
  assumes "ENABLE_TRACKING cfg"
  shows "(new_size > old_size \<longrightarrow>
            current_usage_ctr (BasicMemoryTracker_track_reallocation cfg old_size new_size t)
              = current_usage_ctr t + (new_size - old_size)
          \<and> peak_usage_ctr (BasicMemoryTracker_track_reallocation cfg old_size new_size t)
              = max (peak_usage_ctr t) (current_usage_ctr t + (new_size - old_size)))
       \<and> (old_size > new_size \<longrightarrow>
            current_usage_ctr (BasicMemoryTracker_track_reallocation cfg old_size new_size t)
              = current_usage_ctr t - (old_size - new_size)
          \<and> peak_usage_ctr (BasicMemoryTracker_track_reallocation cfg old_size new_size t)
              = peak_usage_ctr t)
       \<and> (old_size = new_size \<longrightarrow>
            current_usage_ctr (BasicMemoryTracker_track_reallocation cfg old_size new_size t)
              = current_usage_ctr t
          \<and> peak_usage_ctr (BasicMemoryTracker_track_reallocation cfg old_size new_size t)
              = peak_usage_ctr t)
       \<and> reallocation_count_ctr (BasicMemoryTracker_track_reallocation cfg old_size new_size t)
            = reallocation_count_ctr t + 1
       \<and> allocation_count_ctr (BasicMemoryTracker_track_reallocation cfg old_size new_size t)
            = allocation_count_ctr t
       \<and> deallocation_count_ctr (BasicMemoryTracker_track_reallocation cfg old_size new_size t)
            = deallocation_count_ctr t"
  using assms by (auto simp: BasicMemoryTracker_track_reallocation_def Let_def)

theorem track_reallocation_delta_witness:
  "ENABLE_TRACKING ThreadSafeConfig
   \<and> (256 :: memory_size_t) > 64
   \<and> current_usage_ctr (BasicMemoryTracker_track_reallocation ThreadSafeConfig 64 256
        (TrackerState_initial\<lparr>current_usage_ctr := 100, peak_usage_ctr := 150\<rparr>)) = 100 + 192
   \<and> peak_usage_ctr (BasicMemoryTracker_track_reallocation ThreadSafeConfig 64 256
        (TrackerState_initial\<lparr>current_usage_ctr := 100, peak_usage_ctr := 150\<rparr>)) = 292
   \<and> reallocation_count_ctr (BasicMemoryTracker_track_reallocation ThreadSafeConfig 64 256
        (TrackerState_initial\<lparr>current_usage_ctr := 100, peak_usage_ctr := 150\<rparr>)) = 1"
  using track_reallocation_delta [of ThreadSafeConfig 64 256
      "TrackerState_initial\<lparr>current_usage_ctr := 100, peak_usage_ctr := 150\<rparr>"]
  by (simp add: ThreadSafeConfig_def TrackerState_initial_def)

text \<open>
  C9. In the snapshot that \<open>get_stats\<close> returns, for \<open>BasicMemoryTracker\<close> and for
  \<open>DetailedMemoryTracker\<close>, \<open>total_allocated\<close> is \<open>allocation_count\<close> and \<open>total_freed\<close> is
  \<open>deallocation_count\<close>: with tracking enabled they are the values of the counters
  \<open>allocation_count_\<close> and \<open>deallocation_count_\<close>, numbers of calls and not numbers of
  bytes.
\<close>

theorem get_stats_totals_are_counts:
  "total_allocated (BasicMemoryTracker_get_stats cfg t)
     = allocation_count (BasicMemoryTracker_get_stats cfg t)
   \<and> total_freed (BasicMemoryTracker_get_stats cfg t)
     = deallocation_count (BasicMemoryTracker_get_stats cfg t)
   \<and> total_allocated (DetailedMemoryTracker_get_stats cfg t)
     = allocation_count (DetailedMemoryTracker_get_stats cfg t)
   \<and> total_freed (DetailedMemoryTracker_get_stats cfg t)
     = deallocation_count (DetailedMemoryTracker_get_stats cfg t)
   \<and> (ENABLE_TRACKING cfg \<longrightarrow>
        total_allocated (BasicMemoryTracker_get_stats cfg t) = allocation_count_ctr t
      \<and> total_freed (BasicMemoryTracker_get_stats cfg t) = deallocation_count_ctr t
      \<and> total_allocated (DetailedMemoryTracker_get_stats cfg t) = allocation_count_ctr t
      \<and> total_freed (DetailedMemoryTracker_get_stats cfg t) = deallocation_count_ctr t)"
  by (simp add: BasicMemoryTracker_get_stats_def DetailedMemoryTracker_get_stats_def
      MemoryStats_default_def Let_def)

theorem get_stats_totals_are_counts_witness:
  "ENABLE_TRACKING ThreadSafeConfig
   \<and> total_allocated (BasicMemoryTracker_get_stats ThreadSafeConfig
        (BasicMemoryTracker_track_allocation ThreadSafeConfig 100 TrackerState_initial)) = 1
   \<and> total_freed (BasicMemoryTracker_get_stats ThreadSafeConfig
        (BasicMemoryTracker_track_allocation ThreadSafeConfig 100 TrackerState_initial)) = 0
   \<and> current_usage (BasicMemoryTracker_get_stats ThreadSafeConfig
        (BasicMemoryTracker_track_allocation ThreadSafeConfig 100 TrackerState_initial)) = 100"
  using get_stats_totals_are_counts [of ThreadSafeConfig
      "BasicMemoryTracker_track_allocation ThreadSafeConfig 100 TrackerState_initial"]
  by (simp add: ThreadSafeConfig_def TrackerState_initial_def
      BasicMemoryTracker_track_allocation_def BasicMemoryTracker_get_stats_def
      MemoryStats_default_def Let_def)

text \<open>
  C10. With detailed tracking enabled, \<open>track_deallocation_with_ptr(p)\<close> on a table that
  holds a record for \<open>p\<close> subtracts the size stored in that record from \<open>current_usage_\<close>
  and erases the record, every other pointer keeping its record; on a table with no
  record for \<open>p\<close> it leaves \<open>current_usage_\<close> and the table as they are. In both cases it
  adds 1 to \<open>deallocation_count_\<close> and changes no other counter.
\<close>

theorem track_deallocation_with_ptr_effect:
  assumes "ENABLE_TRACKING cfg" and "TRACKING_LEVEL cfg = DETAILED"
  shows "(\<forall>info. map_of (allocations_tbl t) p = Some info \<longrightarrow>
            current_usage_ctr (DetailedMemoryTracker_track_deallocation_with_ptr cfg p t)
              = current_usage_ctr t - alloc_size info
          \<and> allocations_tbl (DetailedMemoryTracker_track_deallocation_with_ptr cfg p t)
              = AList.delete p (allocations_tbl t)
          \<and> map_of (allocations_tbl (DetailedMemoryTracker_track_deallocation_with_ptr cfg p t))
              = (map_of (allocations_tbl t))(p := None))
       \<and> (map_of (allocations_tbl t) p = None \<longrightarrow>
            current_usage_ctr (DetailedMemoryTracker_track_deallocation_with_ptr cfg p t)
              = current_usage_ctr t
          \<and> allocations_tbl (DetailedMemoryTracker_track_deallocation_with_ptr cfg p t)
              = allocations_tbl t)
       \<and> deallocation_count_ctr (DetailedMemoryTracker_track_deallocation_with_ptr cfg p t)
            = deallocation_count_ctr t + 1
       \<and> peak_usage_ctr (DetailedMemoryTracker_track_deallocation_with_ptr cfg p t)
            = peak_usage_ctr t
       \<and> allocation_count_ctr (DetailedMemoryTracker_track_deallocation_with_ptr cfg p t)
            = allocation_count_ctr t
       \<and> reallocation_count_ctr (DetailedMemoryTracker_track_deallocation_with_ptr cfg p t)
            = reallocation_count_ctr t
       \<and> next_allocation_id_ctr (DetailedMemoryTracker_track_deallocation_with_ptr cfg p t)
            = next_allocation_id_ctr t"
  using assms
  by (auto simp: DetailedMemoryTracker_track_deallocation_with_ptr_def Let_def delete_conv'
      split: option.splits)

theorem track_deallocation_with_ptr_effect_witness:
  "ENABLE_TRACKING DebugConfig \<and> TRACKING_LEVEL DebugConfig = DETAILED
   \<and> current_usage_ctr (DetailedMemoryTracker_track_deallocation_with_ptr DebugConfig 4096
        (DetailedMemoryTracker_track_allocation_with_ptr DebugConfig 4096 48 (Some ''a.cpp'') 7
           (Some ''main'') TrackerState_initial)) = 0
   \<and> allocations_tbl (DetailedMemoryTracker_track_deallocation_with_ptr DebugConfig 4096
        (DetailedMemoryTracker_track_allocation_with_ptr DebugConfig 4096 48 (Some ''a.cpp'') 7
           (Some ''main'') TrackerState_initial)) = []
   \<and> deallocation_count_ctr (DetailedMemoryTracker_track_deallocation_with_ptr DebugConfig 4096
        (DetailedMemoryTracker_track_allocation_with_ptr DebugConfig 4096 48 (Some ''a.cpp'') 7
           (Some ''main'') TrackerState_initial)) = 1
   \<and> map_of (allocations_tbl TrackerState_initial) 4096 = None
   \<and> current_usage_ctr
        (DetailedMemoryTracker_track_deallocation_with_ptr DebugConfig 4096 TrackerState_initial) = 0
   \<and> deallocation_count_ctr
        (DetailedMemoryTracker_track_deallocation_with_ptr DebugConfig 4096 TrackerState_initial) = 1"
  using track_deallocation_with_ptr_effect [of DebugConfig
      "DetailedMemoryTracker_track_allocation_with_ptr DebugConfig 4096 48 (Some ''a.cpp'') 7
         (Some ''main'') TrackerState_initial" 4096]
    track_deallocation_with_ptr_effect [of DebugConfig TrackerState_initial 4096]
  by (simp add: DebugConfig_def TrackerState_initial_def
      DetailedMemoryTracker_track_allocation_with_ptr_def
      DetailedMemoryTracker_track_deallocation_with_ptr_def Let_def)

lemma TrackerType_call_inactive:
  "\<not> (ENABLE_TRACKING cfg \<and> TRACKING_LEVEL cfg \<noteq> TL_NONE) \<Longrightarrow> TrackerType_call cfg c t = t"
  by (cases c)
    (auto simp: TrackerType_defs MemoryTracker_defs BasicMemoryTracker_defs
      DetailedMemoryTracker_defs)

lemma TrackerType_run_inactive:
  "\<not> (ENABLE_TRACKING cfg \<and> TRACKING_LEVEL cfg \<noteq> TL_NONE) \<Longrightarrow> TrackerType_run cfg calls t = t"
  by (induction calls arbitrary: t) (simp_all add: TrackerType_call_inactive)

text \<open>
  C8. When no tracking is in effect, which is when the configuration selects
  \<open>MemoryTracker\<close> (tracking level \<open>NONE\<close>) or has \<open>ENABLE_TRACKING\<close> off, every history
  of \<open>track_allocation\<close>, \<open>track_deallocation\<close> and \<open>track_reallocation\<close> calls leaves
  the state as it was; \<open>get_current_usage\<close>, \<open>get_peak_usage\<close> and
  \<open>get_allocation_count\<close> return 0 after it and \<open>get_stats\<close> a snapshot of zeros;
  \<open>reset_stats\<close> changes nothing and \<open>dump_allocations\<close> returns having reported nothing,
  also through the engine.
\<close>

theorem no_tracking_is_noop:
  assumes "TRACKING_LEVEL cfg = TL_NONE \<or> \<not> ENABLE_TRACKING cfg"
  shows "TrackerType_run cfg calls t = t
       \<and> TrackerType_get_current_usage cfg (TrackerType_run cfg calls t) = 0
       \<and> TrackerType_get_peak_usage cfg (TrackerType_run cfg calls t) = 0
       \<and> TrackerType_get_allocation_count cfg (TrackerType_run cfg calls t) = 0
       \<and> TrackerType_get_stats cfg (TrackerType_run cfg calls t)
            = \<lparr> total_allocated = 0, total_freed = 0, current_usage = 0, peak_usage = 0,
                allocation_count = 0, deallocation_count = 0, reallocation_count = 0 \<rparr>
       \<and> TrackerType_reset_stats cfg t = t
       \<and> TrackerType_dump_allocations cfg t = Some []
       \<and> reset_memory_stats cfg st = st
       \<and> dump_memory_allocations cfg st = Some st"
proof -
  from assms have off: "\<not> (ENABLE_TRACKING cfg \<and> TRACKING_LEVEL cfg \<noteq> TL_NONE)"
    by blast
  have run: "TrackerType_run cfg calls t = t"
    by (rule TrackerType_run_inactive [OF off])
  have getters: "TrackerType_get_current_usage cfg t = 0" "TrackerType_get_peak_usage cfg t = 0"
    "TrackerType_get_allocation_count cfg t = 0"
    using off
    by (auto simp: TrackerType_get_current_usage_def TrackerType_get_peak_usage_def
        TrackerType_get_allocation_count_def MemoryTracker_get_current_usage_def
        MemoryTracker_get_peak_usage_def MemoryTracker_get_allocation_count_def
        BasicMemoryTracker_get_current_usage_def BasicMemoryTracker_get_peak_usage_def
        BasicMemoryTracker_get_allocation_count_def DetailedMemoryTracker_get_current_usage_def
        DetailedMemoryTracker_get_peak_usage_def DetailedMemoryTracker_get_allocation_count_def)
  have stats: "TrackerType_get_stats cfg t
      = \<lparr> total_allocated = 0, total_freed = 0, current_usage = 0, peak_usage = 0,
          allocation_count = 0, deallocation_count = 0, reallocation_count = 0 \<rparr>"
    using off
    by (auto simp: TrackerType_get_stats_def MemoryTracker_get_stats_def
        BasicMemoryTracker_get_stats_def DetailedMemoryTracker_get_stats_def
        MemoryStats_default_def)
  have reset: "TrackerType_reset_stats cfg t = t" for t
    using off
    by (auto simp: TrackerType_reset_stats_def MemoryTracker_reset_stats_def
        BasicMemoryTracker_reset_stats_def DetailedMemoryTracker_reset_stats_def)
  have dump: "TrackerType_dump_allocations cfg t = Some []" for t
    using off
    by (auto simp: TrackerType_dump_allocations_def MemoryTracker_dump_allocations_def
        BasicMemoryTracker_dump_allocations_def DetailedMemoryTracker_dump_allocations_def)
  from run getters stats reset dump show ?thesis
    by (simp add: reset_memory_stats_def dump_memory_allocations_def)
qed

theorem no_tracking_is_noop_witness:
  "TRACKING_LEVEL EmbeddedConfig = TL_NONE
   \<and> TrackerType_run EmbeddedConfig
        [TrackAllocation 128, TrackReallocation 128 512, TrackDeallocation 512]
        TrackerState_initial = TrackerState_initial
   \<and> TrackerType_get_current_usage EmbeddedConfig
        (TrackerType_run EmbeddedConfig
           [TrackAllocation 128, TrackReallocation 128 512, TrackDeallocation 512]
           TrackerState_initial) = 0
   \<and> TrackerType_get_allocation_count EmbeddedConfig
        (TrackerType_run EmbeddedConfig
           [TrackAllocation 128, TrackReallocation 128 512, TrackDeallocation 512]
           TrackerState_initial) = 0"
proof -
  have level: "TRACKING_LEVEL EmbeddedConfig = TL_NONE"
    by (simp add: EmbeddedConfig_def)
  from level
    no_tracking_is_noop [OF disjI1 [OF level],
      of "[TrackAllocation 128, TrackReallocation 128 512, TrackDeallocation 512]"
        TrackerState_initial]
  show ?thesis by blast
qed

section \<open>Properties of the allocation engine\<close>

text \<open>
  C7, as the code has it. Every configuration but \<open>HighPerformanceConfig\<close> instantiates
  the primary template, whose \<open>free_static\<close> on a null pointer sends one error report,
  \<open>Null pointer: p_ptr\<close>, to the error sink and returns: it makes no system call and
  leaves the tracker and the heap as they are. The specialization for
  \<open>HighPerformanceConfig\<close> passes the null pointer to \<open>std::free\<close> and reports nothing.
\<close>

theorem free_static_null_pointer:
  "(cfg \<noteq> HighPerformanceConfig \<longrightarrow>
      error_sink (MemoryManager_free_static plat cfg nullptr p_pad_align st)
        = error_sink st @
            [\<lparr> report_type = MEM_ERROR, report_function = ''free_static'',
               report_file = ''memory_manager.h'', report_line = 151,
               report_message = ''Null pointer: p_ptr'' \<rparr>]
    \<and> system_calls (MemoryManager_free_static plat cfg nullptr p_pad_align st) = system_calls st
    \<and> tracker (MemoryManager_free_static plat cfg nullptr p_pad_align st) = tracker st
    \<and> heap (MemoryManager_free_static plat cfg nullptr p_pad_align st) = heap st)
   \<and> error_sink (MemoryManager_free_static plat HighPerformanceConfig nullptr p_pad_align st)
        = error_sink st
   \<and> system_calls (MemoryManager_free_static plat HighPerformanceConfig nullptr p_pad_align st)
        = system_calls st @ [Free nullptr]
   \<and> tracker (MemoryManager_free_static plat HighPerformanceConfig nullptr p_pad_align st)
        = tracker st"
  by (simp add: MemoryManager_free_static_def free_static_def HighPerformance_free_static_def
      report_def std_free_def MEMORY_ERROR_def memory_report_error_def)

theorem free_static_null_pointer_witness:
  "DebugConfig \<noteq> HighPerformanceConfig
   \<and> error_sink (MemoryManager_free_static debug_build DebugConfig nullptr False MemoryState_initial)
        = error_sink MemoryState_initial @
            [\<lparr> report_type = MEM_ERROR, report_function = ''free_static'',
               report_file = ''memory_manager.h'', report_line = 151,
               report_message = ''Null pointer: p_ptr'' \<rparr>]
   \<and> system_calls (MemoryManager_free_static debug_build DebugConfig nullptr False MemoryState_initial)
        = system_calls MemoryState_initial"
proof -
  have generic: "DebugConfig \<noteq> HighPerformanceConfig"
    by (simp add: DebugConfig_def HighPerformanceConfig_def)
  from generic free_static_null_pointer [of DebugConfig debug_build False MemoryState_initial]
  show ?thesis by blast
qed

text \<open>
  As the specification states it, C7 fails for \<open>HighPerformanceConfig\<close>: freeing a null
  pointer there reports no error and calls \<open>std::free\<close>.
\<close>

theorem free_static_null_pointer_counterexample:
  "error_sink (MemoryManager_free_static release_build HighPerformanceConfig nullptr False
      MemoryState_initial) = []
   \<and> system_calls (MemoryManager_free_static release_build HighPerformanceConfig nullptr False
      MemoryState_initial) = [Free nullptr]"
  by (simp add: MemoryManager_free_static_def HighPerformance_free_static_def std_free_def
      MemoryState_initial_def)

lemma alloc_static_padded:
  assumes "should_use_padding plat cfg p_pad_align" and "mem \<noteq> nullptr"
  shows "fst (alloc_static plat cfg p_ensure_zero p_bytes p_pad_align mem st) = mem + DATA_OFFSET plat"
    and "heap (snd (alloc_static plat cfg p_ensure_zero p_bytes p_pad_align mem st)) (get_size_ptr mem)
           = p_bytes"
    and "tracker (snd (alloc_static plat cfg p_ensure_zero p_bytes p_pad_align mem st))
           = TrackerType_track_allocation cfg p_bytes (tracker st)"
  using assms by (simp_all add: alloc_static_def Let_def std_malloc_def std_calloc_def)

lemma realloc_static_padded:
  assumes "should_use_padding plat cfg p_pad_align" and "p_memory \<noteq> nullptr"
    and "p_bytes \<noteq> 0" and "result \<noteq> nullptr"
  shows "fst (realloc_static plat cfg p_memory p_bytes p_pad_align result kept st)
           = result + DATA_OFFSET plat"
    and "heap (snd (realloc_static plat cfg p_memory p_bytes p_pad_align result kept st))
           (get_size_ptr result) = p_bytes"
  using assms by (simp_all add: realloc_static_def Let_def std_realloc_def)

lemma free_static_padded:
  assumes "should_use_padding plat cfg p_pad_align" and "p_ptr \<noteq> nullptr"
  shows "free_static plat cfg p_ptr p_pad_align st =
           std_free (p_ptr - DATA_OFFSET plat)
             (st\<lparr>tracker := TrackerType_track_deallocation cfg
                               (heap st (get_size_ptr (p_ptr - DATA_OFFSET plat))) (tracker st)\<rparr>)"
  using assms by (simp add: free_static_def Let_def)

lemma realloc_static_padded_tracker:
  assumes "should_use_padding plat cfg p_pad_align" and "p_memory \<noteq> nullptr"
  shows "tracker (snd (realloc_static plat cfg p_memory p_bytes p_pad_align result kept st))
           = TrackerType_track_reallocation cfg
               (heap st (get_size_ptr (p_memory - DATA_OFFSET plat))) p_bytes (tracker st)"
  using assms
  by (simp add: realloc_static_def Let_def std_realloc_def std_free_def report_def)

lemma TrackerType_track_deallocation_usage:
  assumes "ENABLE_TRACKING cfg" and "TRACKING_LEVEL cfg \<noteq> TL_NONE"
  shows "current_usage_ctr (TrackerType_track_deallocation cfg sz t) = current_usage_ctr t - sz"
    and "deallocation_count_ctr (TrackerType_track_deallocation cfg sz t)
           = deallocation_count_ctr t + 1"
    and "allocation_count_ctr (TrackerType_track_deallocation cfg sz t) = allocation_count_ctr t"
  using assms
  by (simp_all add: TrackerType_track_deallocation_def BasicMemoryTracker_track_deallocation_def
      DetailedMemoryTracker_track_deallocation_def)

lemma TrackerType_track_allocation_usage:
  assumes "ENABLE_TRACKING cfg" and "TRACKING_LEVEL cfg \<noteq> TL_NONE"
  shows "current_usage_ctr (TrackerType_track_allocation cfg sz t) = current_usage_ctr t + sz"
    and "allocation_count_ctr (TrackerType_track_allocation cfg sz t) = allocation_count_ctr t + 1"
    and "deallocation_count_ctr (TrackerType_track_allocation cfg sz t) = deallocation_count_ctr t"
  using assms
  by (simp_all add: TrackerType_track_allocation_def BasicMemoryTracker_track_allocation_def
      DetailedMemoryTracker_track_allocation_def Let_def)

lemma engine_call_frame:
  assumes "on_other_blocks plat cfg mem c"
  shows "heap (engine_call plat cfg c st) mem = heap st mem"
proof (cases c)
  case (AllocStatic p_ensure_zero p_bytes p_pad_align result)
  with assms show ?thesis
    by (cases "should_use_padding plat cfg p_pad_align")
      (auto simp: alloc_static_def Let_def std_malloc_def std_calloc_def report_def
        get_size_ptr_def SIZE_OFFSET_def)
next
  case (ReallocStatic p_memory p_bytes p_pad_align result kept)
  with assms have other: "p_memory - DATA_OFFSET plat \<noteq> mem"
    and fresh: "result \<noteq> mem" "\<not> mem - result < kept"
    by auto
  then show ?thesis
    unfolding ReallocStatic
    by (cases "should_use_padding plat cfg p_pad_align")
      (auto simp: realloc_static_def alloc_static_def Let_def std_malloc_def std_realloc_def
        std_free_def report_def get_size_ptr_def SIZE_OFFSET_def)
next
  case (FreeStatic p_ptr p_pad_align)
  then show ?thesis
    by (simp add: free_static_def Let_def std_free_def report_def)
qed

lemma engine_run_frame:
  "list_all (on_other_blocks plat cfg mem) calls \<Longrightarrow>
     heap (engine_run plat cfg calls st) mem = heap st mem"
  by (induction calls arbitrary: st) (simp_all add: engine_call_frame)

lemma DATA_OFFSET_values:
  assumes "alignof_uint64 plat \<in> {1, 2, 4, 8}"
    and "alignof_max_align plat \<in> {1, 2, 4, 8, 16, 32, 64}"
  shows "DATA_OFFSET plat \<in> {16, 32, 64}"
proof -
  from assms(1) have "ELEMENT_OFFSET plat = 8"
    by (auto simp: ELEMENT_OFFSET_def SIZE_OFFSET_def sizeof_uint64_def)
  with assms(2) show ?thesis
    by (auto simp: DATA_OFFSET_def sizeof_uint64_def)
qed

text \<open>
  C1. Let padding be in effect, and let \<open>p\<close> be returned by an allocation of \<open>s\<close> bytes, or
  by a reallocation to \<open>s\<close> bytes, whose system call returned the non-null block \<open>mem\<close>.
  Then \<open>p\<close> is \<open>mem + DATA_OFFSET\<close>, and the word \<open>DATA_OFFSET\<close> bytes ahead of \<open>p\<close>, the first
  word of the block, holds \<open>s\<close>; \<open>DATA_OFFSET\<close> is 16, 32 or 64 where \<open>memory_uint64_t\<close> is
  aligned to at most 8 bytes and \<open>std::max_align_t\<close> to at most 64. That word still holds
  \<open>s\<close> after any history of engine calls on other blocks. After such a history a padded
  \<open>free_static\<close> of \<open>p\<close> passes \<open>s\<close> to \<open>track_deallocation\<close> (so an enabled aggregate or
  detailed tracker lowers \<open>current_usage_\<close> by \<open>s\<close>) and releases \<open>mem\<close>, and a padded
  \<open>realloc_static\<close> of \<open>p\<close> passes \<open>s\<close> to \<open>track_reallocation\<close> as the old size.
\<close>

theorem size_header_round_trip:
  assumes padded: "should_use_padding plat cfg p_pad_align"
    and block: "mem \<noteq> nullptr" "mem + DATA_OFFSET plat \<noteq> nullptr"
    and call: "alloc_static plat cfg p_ensure_zero s p_pad_align mem st = (p, st1)
               \<or> ((p_old = nullptr \<or> s \<noteq> 0)
                   \<and> realloc_static plat cfg p_old s p_pad_align mem kept st = (p, st1))"
    and others: "list_all (on_other_blocks plat cfg mem) calls"
  shows "p = mem + DATA_OFFSET plat
       \<and> heap st1 (p - DATA_OFFSET plat) = s
       \<and> heap (engine_run plat cfg calls st1) (p - DATA_OFFSET plat) = s
       \<and> tracker (free_static plat cfg p p_pad_align (engine_run plat cfg calls st1))
           = TrackerType_track_deallocation cfg s (tracker (engine_run plat cfg calls st1))
       \<and> system_calls (free_static plat cfg p p_pad_align (engine_run plat cfg calls st1))
           = system_calls (engine_run plat cfg calls st1) @ [Free mem]
       \<and> (ENABLE_TRACKING cfg \<and> TRACKING_LEVEL cfg \<noteq> TL_NONE \<longrightarrow>
            current_usage_ctr
              (tracker (free_static plat cfg p p_pad_align (engine_run plat cfg calls st1)))
              = current_usage_ctr (tracker (engine_run plat cfg calls st1)) - s)
       \<and> tracker (snd (realloc_static plat cfg p n p_pad_align result kept'
                          (engine_run plat cfg calls st1)))
           = TrackerType_track_reallocation cfg s n (tracker (engine_run plat cfg calls st1))
       \<and> (alignof_uint64 plat \<in> {1, 2, 4, 8}
            \<and> alignof_max_align plat \<in> {1, 2, 4, 8, 16, 32, 64} \<longrightarrow>
            DATA_OFFSET plat \<in> {16, 32, 64})"
proof -
  let ?st2 = "engine_run plat cfg calls st1"
  have ret: "p = mem + DATA_OFFSET plat \<and> heap st1 (get_size_ptr mem) = s"
  proof (cases "alloc_static plat cfg p_ensure_zero s p_pad_align mem st = (p, st1)")
    case True
    with alloc_static_padded(1,2) [OF padded block(1), of p_ensure_zero s st]
    show ?thesis by simp
  next
    case False
    with call have size: "p_old = nullptr \<or> s \<noteq> 0"
      and re: "realloc_static plat cfg p_old s p_pad_align mem kept st = (p, st1)"
      by blast+
    show ?thesis
    proof (cases "p_old = nullptr")
      case True
      with re have "alloc_static plat cfg False s p_pad_align mem st = (p, st1)"
        by (simp add: realloc_static_def)
      with alloc_static_padded(1,2) [OF padded block(1), of False s st]
      show ?thesis by simp
    next
      case False
      with size have "s \<noteq> 0" by blast
      with realloc_static_padded [OF padded False _ block(1), of s kept st] re
      show ?thesis by simp
    qed
  qed
  then have p: "p = mem + DATA_OFFSET plat" and first: "heap st1 mem = s"
    by (simp_all add: get_size_ptr_def SIZE_OFFSET_def)
  from p have base: "p - DATA_OFFSET plat = mem" by simp
  from p block(2) have nonnull: "p \<noteq> nullptr" by simp
  from engine_run_frame [OF others, of st1] first have kept_word: "heap ?st2 mem = s"
    by simp
  then have header2: "heap ?st2 (get_size_ptr (p - DATA_OFFSET plat)) = s"
    by (simp add: base get_size_ptr_def SIZE_OFFSET_def)
  have freed: "free_static plat cfg p p_pad_align ?st2 =
      std_free mem (?st2\<lparr>tracker := TrackerType_track_deallocation cfg s (tracker ?st2)\<rparr>)"
    using free_static_padded [OF padded nonnull, of ?st2] header2 base by simp
  have realloc: "tracker (snd (realloc_static plat cfg p n p_pad_align result kept' ?st2))
      = TrackerType_track_reallocation cfg s n (tracker ?st2)"
    using realloc_static_padded_tracker [OF padded nonnull, of n result kept' ?st2] header2
    by simp
  have layout: "alignof_uint64 plat \<in> {1, 2, 4, 8}
      \<and> alignof_max_align plat \<in> {1, 2, 4, 8, 16, 32, 64} \<longrightarrow>
      DATA_OFFSET plat \<in> {16, 32, 64}"
    using DATA_OFFSET_values [of plat] by blast
  have parts: "p = mem + DATA_OFFSET plat" "heap st1 (p - DATA_OFFSET plat) = s"
    "heap ?st2 (p - DATA_OFFSET plat) = s"
    "tracker (free_static plat cfg p p_pad_align ?st2)
       = TrackerType_track_deallocation cfg s (tracker ?st2)"
    "system_calls (free_static plat cfg p p_pad_align ?st2) = system_calls ?st2 @ [Free mem]"
    "ENABLE_TRACKING cfg \<and> TRACKING_LEVEL cfg \<noteq> TL_NONE \<longrightarrow>
       current_usage_ctr (tracker (free_static plat cfg p p_pad_align ?st2))
         = current_usage_ctr (tracker ?st2) - s"
    using p first kept_word base freed
    by (simp_all add: std_free_def TrackerType_track_deallocation_usage)
  show ?thesis
    by (intro conjI parts realloc layout)
qed

theorem size_header_round_trip_witness:
  "should_use_padding debug_build DebugConfig False
   \<and> (4096 :: pointer) \<noteq> nullptr \<and> 4096 + DATA_OFFSET debug_build \<noteq> nullptr
   \<and> alloc_static debug_build DebugConfig False 128 False 4096 MemoryState_initial
       = (4112, snd (alloc_static debug_build DebugConfig False 128 False 4096 MemoryState_initial))
   \<and> on_other_blocks debug_build DebugConfig 4096 (AllocStatic False 20 False 8192)
   \<and> on_other_blocks debug_build DebugConfig 4096 (ReallocStatic 8208 40 False 16384 36)
   \<and> on_other_blocks debug_build DebugConfig 4096 (FreeStatic 16400 False)
   \<and> DATA_OFFSET debug_build = 16
   \<and> heap (snd (alloc_static debug_build DebugConfig False 128 False 4096 MemoryState_initial))
        (4112 - DATA_OFFSET debug_build) = 128
   \<and> heap (engine_run debug_build DebugConfig [AllocStatic False 20 False 8192, ReallocStatic 8208 40 False 16384 36,
           FreeStatic 16400 False]
          (snd (alloc_static debug_build DebugConfig False 128 False 4096 MemoryState_initial)))
        (4112 - DATA_OFFSET debug_build) = 128
   \<and> current_usage_ctr (tracker (engine_run debug_build DebugConfig [AllocStatic False 20 False 8192, ReallocStatic 8208 40 False 16384 36,
           FreeStatic 16400 False]
        (snd (alloc_static debug_build DebugConfig False 128 False 4096 MemoryState_initial)))) = 128
   \<and> current_usage_ctr (tracker (free_static debug_build DebugConfig 4112 False
        (engine_run debug_build DebugConfig [AllocStatic False 20 False 8192, ReallocStatic 8208 40 False 16384 36,
           FreeStatic 16400 False]
          (snd (alloc_static debug_build DebugConfig False 128 False 4096 MemoryState_initial))))) = 0
   \<and> system_calls (free_static debug_build DebugConfig 4112 False
        (engine_run debug_build DebugConfig [AllocStatic False 20 False 8192, ReallocStatic 8208 40 False 16384 36,
           FreeStatic 16400 False]
          (snd (alloc_static debug_build DebugConfig False 128 False 4096 MemoryState_initial))))
        = [Malloc 144, Malloc 36, Realloc 8192 56, Free 16384, Free 4096]"
proof -
  let ?st1 = "snd (alloc_static debug_build DebugConfig False 128 False 4096 MemoryState_initial)"
  let ?st2 = "engine_run debug_build DebugConfig [AllocStatic False 20 False 8192, ReallocStatic 8208 40 False 16384 36,
           FreeStatic 16400 False] ?st1"
  have offset: "DATA_OFFSET debug_build = 16"
    by (simp add: DATA_OFFSET_def ELEMENT_OFFSET_def SIZE_OFFSET_def sizeof_uint64_def
        debug_build_def)
  have padded: "should_use_padding debug_build DebugConfig False"
    by (simp add: should_use_padding_def DebugConfig_def)
  have block: "(4096 :: pointer) \<noteq> nullptr" "4096 + DATA_OFFSET debug_build \<noteq> nullptr"
    by (simp_all add: offset nullptr_def)
  have tracking: "ENABLE_TRACKING DebugConfig \<and> TRACKING_LEVEL DebugConfig \<noteq> TL_NONE"
    by (simp add: DebugConfig_def)
  have call: "alloc_static debug_build DebugConfig False 128 False 4096 MemoryState_initial
      = (4112, ?st1)"
    using padded by (simp add: alloc_static_def Let_def offset nullptr_def)
  have other: "on_other_blocks debug_build DebugConfig 4096 (AllocStatic False 20 False 8192)"
    "on_other_blocks debug_build DebugConfig 4096 (ReallocStatic 8208 40 False 16384 36)"
    "on_other_blocks debug_build DebugConfig 4096 (FreeStatic 16400 False)"
    using padded by (simp_all add: offset)
  then have others: "list_all (on_other_blocks debug_build DebugConfig 4096)
      [AllocStatic False 20 False 8192, ReallocStatic 8208 40 False 16384 36,
           FreeStatic 16400 False]"
    by simp
  have allocated: "current_usage_ctr (tracker ?st2) = 128"
    and called: "system_calls ?st2 = [Malloc 144, Malloc 36, Realloc 8192 56, Free 16384]"
    using padded
    by (simp_all add: alloc_static_def realloc_static_def free_static_def Let_def offset
        nullptr_def std_malloc_def std_realloc_def std_free_def get_size_ptr_def
        SIZE_OFFSET_def MemoryState_initial_def TrackerState_initial_def TrackerType_defs
        DetailedMemoryTracker_defs DebugConfig_def)
  note round_trip =
    size_header_round_trip [OF padded block disjI1 [OF call] others, of 0 nullptr 0]
  note first = round_trip [THEN conjunct2, THEN conjunct1]
  note kept_word = round_trip [THEN conjunct2, THEN conjunct2, THEN conjunct1]
  note calls = round_trip [THEN conjunct2, THEN conjunct2, THEN conjunct2, THEN conjunct2,
      THEN conjunct1]
  note usage = round_trip [THEN conjunct2, THEN conjunct2, THEN conjunct2, THEN conjunct2,
      THEN conjunct2, THEN conjunct1, rule_format, OF tracking]
  from usage allocated
  have freed: "current_usage_ctr (tracker (free_static debug_build DebugConfig 4112 False ?st2))
      = 0"
    by simp
  from calls called
  have released: "system_calls (free_static debug_build DebugConfig 4112 False ?st2)
      = [Malloc 144, Malloc 36, Realloc 8192 56, Free 16384, Free 4096]"
    by simp
  show ?thesis
    by (intro conjI padded block call other offset first kept_word allocated freed released)
qed

section \<open>Leak reports of the detailed tracker\<close>

lemma report_leak_entry: "report_leak MEM_WARNING info = leak_entry (record_of info)"
  by (simp add: report_leak_def record_of_def memory_report_error_def Let_def)

lemma map_values_by_key:
  "distinct (map fst al) \<Longrightarrow>
     map (\<lambda>(p, v). f v) al = map (\<lambda>p. f (the (map_of al p))) (map fst al)"
  by (induction al) (auto simp: rev_image_eqI intro!: map_cong)

lemma DetailedMemoryTracker_call_table:
  assumes "ENABLE_TRACKING cfg" and "TRACKING_LEVEL cfg = DETAILED"
    and "distinct (map fst (allocations_tbl t))"
    and "\<forall>p. map_option record_of (map_of (allocations_tbl t) p) = reg p"
  shows "distinct (map fst (allocations_tbl (DetailedMemoryTracker_call cfg c t)))
       \<and> (\<forall>p. map_option record_of (map_of (allocations_tbl (DetailedMemoryTracker_call cfg c t)) p)
              = registered_after reg [c] p)"
  using assms
  by (cases c)
    (auto simp: DetailedMemoryTracker_track_allocation_with_ptr_def
      DetailedMemoryTracker_track_deallocation_with_ptr_def DetailedMemoryTracker_defs
      DetailedMemoryTracker_reset_stats_def Let_def distinct_update distinct_delete
      update_conv' delete_conv' record_of_def split: option.splits)


lemma registered_after_append_one:
  "registered_after reg (c # cs) = registered_after (registered_after reg [c]) cs"
  by (cases c) simp_all

lemma DetailedMemoryTracker_run_table:
  assumes "ENABLE_TRACKING cfg" and "TRACKING_LEVEL cfg = DETAILED"
  shows "distinct (map fst (allocations_tbl t)) \<Longrightarrow>
         \<forall>p. map_option record_of (map_of (allocations_tbl t) p) = reg p \<Longrightarrow>
         distinct (map fst (allocations_tbl (DetailedMemoryTracker_run cfg calls t)))
         \<and> (\<forall>p. map_option record_of
                    (map_of (allocations_tbl (DetailedMemoryTracker_run cfg calls t)) p)
                = registered_after reg calls p)"
proof (induction calls arbitrary: t reg)
  case Nil
  then show ?case by simp
next
  case (Cons c cs)
  from DetailedMemoryTracker_call_table [OF assms Cons.prems, of c]
  have step: "distinct (map fst (allocations_tbl (DetailedMemoryTracker_call cfg c t)))"
    "\<forall>p. map_option record_of (map_of (allocations_tbl (DetailedMemoryTracker_call cfg c t)) p)
         = registered_after reg [c] p"
    by blast+
  from Cons.IH [OF step] show ?case
    by (simp add: registered_after_append_one [of reg c cs])
qed

text \<open>
  The loop of \<open>dump_allocations\<close>, run with the severity \<open>MEM_WARNING\<close> on the table a history
  leaves: as multisets, its reports are the leak entries of the pointers entered by
  \<open>track_allocation_with_ptr\<close> and not removed since.
\<close>

lemma leak_loop_by_key:
  assumes keys: "distinct (map fst (allocations_tbl t))"
    and recs: "\<forall>p. map_option record_of (map_of (allocations_tbl t) p) = reg p"
  shows "mset (map (\<lambda>(ptr, info). report_leak MEM_WARNING info) (allocations_tbl t))
           = image_mset (\<lambda>p. leak_entry (the (reg p))) (mset_set (dom reg))"
proof -
  have dom: "dom reg = set (map fst (allocations_tbl t))"
  proof -
    have "dom reg = dom (map_of (allocations_tbl t))"
    proof (rule set_eqI)
      fix p
      from recs have "reg p = map_option record_of (map_of (allocations_tbl t) p)" by simp
      then show "p \<in> dom reg \<longleftrightarrow> p \<in> dom (map_of (allocations_tbl t))"
        by (simp add: domIff)
    qed
    then show ?thesis by (simp add: dom_map_of_conv_image_fst)
  qed
  have entry: "leak_entry (the (reg p))
      = report_leak MEM_WARNING (the (map_of (allocations_tbl t) p))"
    if "p \<in> set (map fst (allocations_tbl t))" for p
  proof -
    from that have "p \<in> dom (map_of (allocations_tbl t))"
      by (simp only: dom_map_of_conv_image_fst list.set_map)
    then obtain info where "map_of (allocations_tbl t) p = Some info"
      by blast
    moreover from recs have "reg p = map_option record_of (map_of (allocations_tbl t) p)"
      by simp
    ultimately show ?thesis
      by (simp add: report_leak_entry)
  qed
  have "map (\<lambda>(ptr, info). report_leak MEM_WARNING info) (allocations_tbl t)
      = map (\<lambda>p. report_leak MEM_WARNING (the (map_of (allocations_tbl t) p)))
          (map fst (allocations_tbl t))"
    by (rule map_values_by_key [OF keys])
  also have "\<dots> = map (\<lambda>p. leak_entry (the (reg p))) (map fst (allocations_tbl t))"
    by (rule map_cong) (simp_all add: entry del: list.set_map)
  finally have "mset (map (\<lambda>(ptr, info). report_leak MEM_WARNING info) (allocations_tbl t))
      = image_mset (\<lambda>p. leak_entry (the (reg p))) (mset (map fst (allocations_tbl t)))"
    by (simp only: mset_map)
  also have "mset (map fst (allocations_tbl t)) = mset_set (set (map fst (allocations_tbl t)))"
    using keys by (simp only: mset_set_set)
  finally show ?thesis by (simp only: dom)
qed

lemma leak_loop_reports_live_records:
  assumes "ENABLE_TRACKING cfg" and "TRACKING_LEVEL cfg = DETAILED"
    and "allocations_tbl t = []"
  shows "mset (map (\<lambda>(ptr, info). report_leak MEM_WARNING info)
                 (allocations_tbl (DetailedMemoryTracker_run cfg calls t)))
           = image_mset (\<lambda>p. leak_entry (the (registered_after Map.empty calls p)))
               (mset_set (dom (registered_after Map.empty calls)))"
proof -
  from assms(3) have start: "distinct (map fst (allocations_tbl t))"
    "\<forall>p. map_option record_of (map_of (allocations_tbl t) p) = Map.empty p"
    by simp_all
  from DetailedMemoryTracker_run_table [OF assms(1,2) start, of calls]
  have keys: "distinct (map fst (allocations_tbl (DetailedMemoryTracker_run cfg calls t)))"
    and recs: "\<forall>p. map_option record_of
                  (map_of (allocations_tbl (DetailedMemoryTracker_run cfg calls t)) p)
                = registered_after Map.empty calls p"
    by blast+
  show ?thesis by (rule leak_loop_by_key [OF keys recs])
qed

lemma MemoryErrorType_enumerator_WARNING: "MemoryErrorType_enumerator ''WARNING'' = None"
  by (simp add: MemoryErrorType_enumerator_def)

lemma DetailedMemoryTracker_dump_allocations_ill_formed:
  "ENABLE_TRACKING cfg \<Longrightarrow> TRACKING_LEVEL cfg = DETAILED \<Longrightarrow>
     DetailedMemoryTracker_dump_allocations cfg t = None"
  by (simp add: DetailedMemoryTracker_dump_allocations_def MemoryErrorType_enumerator_WARNING)

text \<open>
  C6. Under \<open>DebugConfig\<close>, enter three blocks with \<open>track_allocation_with_ptr\<close> and remove
  the second with \<open>track_deallocation_with_ptr\<close>. The table then holds the records of the
  first and the third block, of 16 and 64 bytes, and of no other pointer. The loop of
  \<open>dump_allocations\<close> names its severity \<open>MemoryErrorType::WARNING\<close>, which is no enumerator
  of \<open>MemoryErrorType\<close>: \<open>dump_allocations\<close> is ill-formed and reports neither of the two
  leaks, also through the engine.
\<close>

theorem dump_allocations_names_no_enumerator:
  "MemoryErrorType_enumerator ''WARNING'' = None
   \<and> MemoryErrorType_enumerator ''MEM_WARNING'' = Some MEM_WARNING
   \<and> map_of (allocations_tbl (DetailedMemoryTracker_run DebugConfig
        [AllocationWithPtr 4096 16 (Some ''a.cpp'') 10 (Some ''f''),
         AllocationWithPtr 8192 32 (Some ''b.cpp'') 20 (Some ''g''),
         AllocationWithPtr 12288 64 None 0 None,
         DeallocationWithPtr 8192]
        TrackerState_initial))
       = [4096 \<mapsto> \<lparr> alloc_size = 16, alloc_file = Some ''a.cpp'', alloc_line = 10,
                     alloc_function = Some ''f'', alloc_timestamp = 0, allocation_id = 1 \<rparr>,
          12288 \<mapsto> \<lparr> alloc_size = 64, alloc_file = None, alloc_line = 0,
                     alloc_function = None, alloc_timestamp = 0, allocation_id = 3 \<rparr>]
   \<and> DetailedMemoryTracker_dump_allocations DebugConfig
        (DetailedMemoryTracker_run DebugConfig
           [AllocationWithPtr 4096 16 (Some ''a.cpp'') 10 (Some ''f''),
            AllocationWithPtr 8192 32 (Some ''b.cpp'') 20 (Some ''g''),
            AllocationWithPtr 12288 64 None 0 None,
            DeallocationWithPtr 8192]
           TrackerState_initial) = None
   \<and> dump_memory_allocations DebugConfig
        (MemoryState_initial\<lparr>tracker := DetailedMemoryTracker_run DebugConfig
           [AllocationWithPtr 4096 16 (Some ''a.cpp'') 10 (Some ''f''),
            AllocationWithPtr 8192 32 (Some ''b.cpp'') 20 (Some ''g''),
            AllocationWithPtr 12288 64 None 0 None,
            DeallocationWithPtr 8192]
           TrackerState_initial\<rparr>) = None"
proof -
  have enabled: "ENABLE_TRACKING DebugConfig" and level: "TRACKING_LEVEL DebugConfig = DETAILED"
    by (simp_all add: DebugConfig_def)
  have names: "MemoryErrorType_enumerator ''WARNING'' = None"
    "MemoryErrorType_enumerator ''MEM_WARNING'' = Some MEM_WARNING"
    by (simp_all add: MemoryErrorType_enumerator_def)
  have table: "allocations_tbl (DetailedMemoryTracker_run DebugConfig
        [AllocationWithPtr 4096 16 (Some ''a.cpp'') 10 (Some ''f''),
         AllocationWithPtr 8192 32 (Some ''b.cpp'') 20 (Some ''g''),
         AllocationWithPtr 12288 64 None 0 None,
         DeallocationWithPtr 8192]
        TrackerState_initial)
      = [(4096, \<lparr> alloc_size = 16, alloc_file = Some ''a.cpp'', alloc_line = 10,
                   alloc_function = Some ''f'', alloc_timestamp = 0, allocation_id = 1 \<rparr>),
         (12288, \<lparr> alloc_size = 64, alloc_file = None, alloc_line = 0,
                    alloc_function = None, alloc_timestamp = 0, allocation_id = 3 \<rparr>)]"
    by (simp add: DebugConfig_def TrackerState_initial_def
        DetailedMemoryTracker_track_allocation_with_ptr_def
        DetailedMemoryTracker_track_deallocation_with_ptr_def Let_def AList.delete_eq)
  have records: "map_of (allocations_tbl (DetailedMemoryTracker_run DebugConfig
        [AllocationWithPtr 4096 16 (Some ''a.cpp'') 10 (Some ''f''),
         AllocationWithPtr 8192 32 (Some ''b.cpp'') 20 (Some ''g''),
         AllocationWithPtr 12288 64 None 0 None,
         DeallocationWithPtr 8192]
        TrackerState_initial))
       = [4096 \<mapsto> \<lparr> alloc_size = 16, alloc_file = Some ''a.cpp'', alloc_line = 10,
                     alloc_function = Some ''f'', alloc_timestamp = 0, allocation_id = 1 \<rparr>,
          12288 \<mapsto> \<lparr> alloc_size = 64, alloc_file = None, alloc_line = 0,
                     alloc_function = None, alloc_timestamp = 0, allocation_id = 3 \<rparr>]"
    unfolding table by (rule ext) simp
  have dump: "DetailedMemoryTracker_dump_allocations DebugConfig t = None" for t
    by (simp add: DetailedMemoryTracker_dump_allocations_def enabled level names)
  have engine: "dump_memory_allocations DebugConfig st = None" for st
    by (simp add: dump_memory_allocations_def TrackerType_dump_allocations_def level dump)
  show ?thesis
    by (intro conjI names records dump engine)
qed

section \<open>Peak usage over a history of tracker calls\<close>


lemma TrackerType_call_current_usage:
  assumes "ENABLE_TRACKING cfg" and "TRACKING_LEVEL cfg \<noteq> TL_NONE"
  shows "current_usage_ctr (TrackerType_call cfg c t) =
           (case c of
              TrackAllocation sz \<Rightarrow> current_usage_ctr t + sz
            | TrackDeallocation sz \<Rightarrow> current_usage_ctr t - sz
            | TrackReallocation old_size new_size \<Rightarrow> current_usage_ctr t + (new_size - old_size))"
  using assms
  by (cases c)
    (auto simp: TrackerType_defs BasicMemoryTracker_defs DetailedMemoryTracker_defs Let_def)

lemma TrackerType_call_peak_usage:
  assumes "ENABLE_TRACKING cfg" and "TRACKING_LEVEL cfg \<noteq> TL_NONE"
  shows "peak_usage_ctr (TrackerType_call cfg c t) =
           (case c of
              TrackAllocation sz \<Rightarrow> max (peak_usage_ctr t) (current_usage_ctr (TrackerType_call cfg c t))
            | TrackDeallocation sz \<Rightarrow> peak_usage_ctr t
            | TrackReallocation old_size new_size \<Rightarrow>
                if new_size > old_size
                then max (peak_usage_ctr t) (current_usage_ctr (TrackerType_call cfg c t))
                else peak_usage_ctr t)"
  using assms
  by (cases c)
    (auto simp: TrackerType_defs BasicMemoryTracker_defs DetailedMemoryTracker_defs Let_def)

lemma TrackerType_call_peak_cases:
  "peak_usage_ctr (TrackerType_call cfg c t) = peak_usage_ctr t
   \<or> peak_usage_ctr (TrackerType_call cfg c t)
        = max (peak_usage_ctr t) (current_usage_ctr (TrackerType_call cfg c t))"
proof (cases "ENABLE_TRACKING cfg \<and> TRACKING_LEVEL cfg \<noteq> TL_NONE")
  case True
  then show ?thesis
    using TrackerType_call_peak_usage [of cfg c t] by (cases c) auto
next
  case False
  then show ?thesis by (simp add: TrackerType_call_inactive)
qed

lemma sum_list_unat_remove1:
  "x \<in> set xs \<Longrightarrow> sum_list (map unat (remove1 x xs)) + unat x = sum_list (map unat xs)"
  by (simp add: sum_list_map_remove1 [of x xs unat])

lemma TrackerType_call_paired:
  fixes t :: TrackerState and out :: "memory_size_t list"
  assumes active: "ENABLE_TRACKING cfg" "TRACKING_LEVEL cfg \<noteq> TL_NONE"
    and inv: "unat (current_usage_ctr t) = sum_list (map unat out)"
    and le: "current_usage_ctr t \<le> peak_usage_ctr t"
    and paired: "correctly_paired out [c]"
    and fits: "sum_list (map unat (outstanding_after out c)) < 2 ^ 64"
  shows "unat (current_usage_ctr (TrackerType_call cfg c t))
           = sum_list (map unat (outstanding_after out c))
       \<and> current_usage_ctr (TrackerType_call cfg c t) \<le> peak_usage_ctr (TrackerType_call cfg c t)"
proof (cases c)
  case (TrackAllocation sz)
  from fits inv TrackAllocation have "unat (current_usage_ctr t) + unat sz < 2 ^ 64"
    by simp
  then have "unat (current_usage_ctr t + sz) = unat (current_usage_ctr t) + unat sz"
    by (simp add: unat_add_lem [THEN iffD1])
  with inv TrackAllocation show ?thesis
    using TrackerType_call_current_usage [OF active, of c t]
      TrackerType_call_peak_usage [OF active, of c t]
    by simp
next
  case (TrackDeallocation sz)
  with paired have "sz \<in> set out" by simp
  from sum_list_unat_remove1 [OF this] inv
  have total: "sum_list (map unat (remove1 sz out)) + unat sz = unat (current_usage_ctr t)"
    by simp
  then have "sz \<le> current_usage_ctr t"
    by (simp add: word_le_nat_alt)
  then have sub: "unat (current_usage_ctr t - sz) = unat (current_usage_ctr t) - unat sz"
    and down: "current_usage_ctr t - sz \<le> current_usage_ctr t"
    by (simp_all add: unat_sub word_sub_le)
  from sub total have "unat (current_usage_ctr t - sz) = sum_list (map unat (remove1 sz out))"
    by simp
  moreover from down le have "current_usage_ctr t - sz \<le> peak_usage_ctr t"
    by simp
  ultimately show ?thesis
    using TrackDeallocation TrackerType_call_current_usage [OF active, of c t]
      TrackerType_call_peak_usage [OF active, of c t]
    by simp
next
  case (TrackReallocation old_size new_size)
  with paired have "old_size \<in> set out" by simp
  from sum_list_unat_remove1 [OF this] inv
  have total: "sum_list (map unat (remove1 old_size out)) + unat old_size
      = unat (current_usage_ctr t)"
    by simp
  then have old: "old_size \<le> current_usage_ctr t"
    by (simp add: word_le_nat_alt)
  from fits TrackReallocation
  have room: "unat new_size + sum_list (map unat (remove1 old_size out)) < 2 ^ 64"
    by simp
  have usage: "unat (current_usage_ctr t + (new_size - old_size))
      = unat new_size + sum_list (map unat (remove1 old_size out))"
  proof -
    have shape: "current_usage_ctr t + (new_size - old_size)
        = (current_usage_ctr t - old_size) + new_size"
      by simp
    from old have sub: "unat (current_usage_ctr t - old_size)
        = unat (current_usage_ctr t) - unat old_size"
      by (simp add: unat_sub)
    with total have less: "unat (current_usage_ctr t - old_size)
        = sum_list (map unat (remove1 old_size out))"
      by simp
    with room have "unat (current_usage_ctr t - old_size) + unat new_size < 2 ^ 64"
      by simp
    then have "unat ((current_usage_ctr t - old_size) + new_size)
        = unat (current_usage_ctr t - old_size) + unat new_size"
      by (simp add: unat_add_lem [THEN iffD1])
    with less have "unat ((current_usage_ctr t - old_size) + new_size)
        = unat new_size + sum_list (map unat (remove1 old_size out))"
      by simp
    then show ?thesis by (simp only: shape)
  qed
  have "current_usage_ctr t + (new_size - old_size) \<le> peak_usage_ctr t"
    if "\<not> new_size > old_size"
  proof -
    from that have "unat new_size \<le> unat old_size"
      by (simp add: word_less_nat_alt)
    with usage total have "unat (current_usage_ctr t + (new_size - old_size))
        \<le> unat (current_usage_ctr t)"
      by simp
    then have "current_usage_ctr t + (new_size - old_size) \<le> current_usage_ctr t"
      by (simp add: word_le_nat_alt)
    with le show ?thesis by simp
  qed
  with usage TrackReallocation show ?thesis
    using TrackerType_call_current_usage [OF active, of c t]
      TrackerType_call_peak_usage [OF active, of c t]
    by simp
qed


lemma correctly_paired_Cons:
  "correctly_paired out (c # cs)
     \<longleftrightarrow> correctly_paired out [c] \<and> correctly_paired (outstanding_after out c) cs"
  by (cases c) simp_all

lemma total_fits_now: "total_fits out calls \<Longrightarrow> sum_list (map unat out) < 2 ^ 64"
  by (cases calls) simp_all

lemma correctly_paired_take:
  "correctly_paired out calls \<Longrightarrow> correctly_paired out (take n calls)"
proof (induction calls arbitrary: out n)
  case Nil
  then show ?case by simp
next
  case (Cons c cs)
  show ?case
  proof (cases n)
    case 0
    then show ?thesis by simp
  next
    case (Suc k)
    from Cons.prems have "correctly_paired out [c]"
      and "correctly_paired (outstanding_after out c) cs"
      by (simp_all add: correctly_paired_Cons [of out c cs])
    with Cons.IH [of "outstanding_after out c" k] Suc show ?thesis
      by (simp add: correctly_paired_Cons [of out c "take k cs"])
  qed
qed

lemma total_fits_take: "total_fits out calls \<Longrightarrow> total_fits out (take n calls)"
proof (induction calls arbitrary: out n)
  case Nil
  then show ?case by simp
next
  case (Cons c cs)
  then show ?case by (cases n) simp_all
qed

lemma usage_history_head:
  "Max (set (usage_history cfg calls t)) \<ge> current_usage_ctr t"
  by (cases calls) simp_all

lemma usage_history_nonempty: "set (usage_history cfg calls t) \<noteq> {}"
  by (cases calls) simp_all

lemma usage_history_inactive:
  "\<not> (ENABLE_TRACKING cfg \<and> TRACKING_LEVEL cfg \<noteq> TL_NONE) \<Longrightarrow>
     set (usage_history cfg calls t) = {current_usage_ctr t}"
  by (induction calls arbitrary: t) (simp_all add: TrackerType_call_inactive)

lemma TrackerType_run_paired:
  fixes t :: TrackerState and out :: "memory_size_t list"
  assumes active: "ENABLE_TRACKING cfg" "TRACKING_LEVEL cfg \<noteq> TL_NONE"
  shows "unat (current_usage_ctr t) = sum_list (map unat out) \<Longrightarrow>
         current_usage_ctr t \<le> peak_usage_ctr t \<Longrightarrow>
         correctly_paired out calls \<Longrightarrow> total_fits out calls \<Longrightarrow>
         current_usage_ctr (TrackerType_run cfg calls t) \<le> peak_usage_ctr (TrackerType_run cfg calls t)
         \<and> peak_usage_ctr (TrackerType_run cfg calls t)
             = max (peak_usage_ctr t) (Max (set (usage_history cfg calls t)))"
proof (induction calls arbitrary: t out)
  case Nil
  then show ?case by (simp add: max_def)
next
  case (Cons c cs)
  let ?t = "TrackerType_call cfg c t"
  let ?out = "outstanding_after out c"
  from Cons.prems(3) have one: "correctly_paired out [c]" and rest: "correctly_paired ?out cs"
    by (simp_all add: correctly_paired_Cons [of out c cs])
  from Cons.prems(4) have fits: "total_fits ?out cs" by simp
  from TrackerType_call_paired [OF active Cons.prems(1,2) one total_fits_now [OF fits]]
  have inv: "unat (current_usage_ctr ?t) = sum_list (map unat ?out)"
    and le: "current_usage_ctr ?t \<le> peak_usage_ctr ?t"
    by blast+
  from Cons.IH [OF inv le rest fits]
  have final: "current_usage_ctr (TrackerType_run cfg cs ?t) \<le> peak_usage_ctr (TrackerType_run cfg cs ?t)"
    and peak: "peak_usage_ctr (TrackerType_run cfg cs ?t)
        = max (peak_usage_ctr ?t) (Max (set (usage_history cfg cs ?t)))"
    by blast+
  let ?M = "Max (set (usage_history cfg cs ?t))"
  have head: "current_usage_ctr ?t \<le> ?M" by (rule usage_history_head)
  from Cons.prems(2)
  have before: "max (peak_usage_ctr t) (max (current_usage_ctr t) ?M) = max (peak_usage_ctr t) ?M"
    by (simp add: max.assoc [symmetric] max.absorb1)
  from head
  have after: "max (max (peak_usage_ctr t) (current_usage_ctr ?t)) ?M = max (peak_usage_ctr t) ?M"
    by (simp add: max.assoc max.absorb2)
  have "max (peak_usage_ctr ?t) ?M = max (peak_usage_ctr t) (max (current_usage_ctr t) ?M)"
    using TrackerType_call_peak_cases [of cfg c t]
    by (elim disjE) (simp_all only: before after)
  also have "max (current_usage_ctr t) ?M = Max (set (usage_history cfg (c # cs) t))"
    using usage_history_nonempty [of cfg cs ?t] by (simp add: max.commute)
  finally show ?case using final peak by simp
qed

lemma TrackerType_run_append:
  "TrackerType_run cfg (xs @ ys) t = TrackerType_run cfg ys (TrackerType_run cfg xs t)"
  by (induction xs arbitrary: t) simp_all

lemma peak_usage_call_mono:
  "peak_usage_ctr t \<le> peak_usage_ctr (TrackerType_call cfg c t)"
  using TrackerType_call_peak_cases [of cfg c t] by auto

lemma peak_usage_run_mono:
  "peak_usage_ctr t \<le> peak_usage_ctr (TrackerType_run cfg calls t)"
proof (induction calls arbitrary: t)
  case Nil
  then show ?case by simp
next
  case (Cons c cs)
  from peak_usage_call_mono [of t cfg c] Cons [of "TrackerType_call cfg c t"]
  show ?case by simp
qed

text \<open>
  C2, as the code has it. Take a history of \<open>track_allocation\<close>, \<open>track_deallocation\<close>
  and \<open>track_reallocation\<close> calls, with no reset, that starts with \<open>current_usage_\<close> and
  \<open>peak_usage_\<close> at 0, is correctly paired, and in which the sizes outstanding never add up
  to \<open>2 ^ 64\<close> or more. Then for the tracker of every configuration, at every quiescent
  point, \<open>peak_usage_\<close> is at least \<open>current_usage_\<close>, it is the greatest value
  \<open>current_usage_\<close> has had at a quiescent point so far, and it is at least what it was at
  every earlier quiescent point.
\<close>

theorem peak_usage_is_running_maximum:
  fixes t :: TrackerState
  assumes paired: "correctly_paired [] calls" and fits: "total_fits [] calls"
    and zero: "current_usage_ctr t = 0" "peak_usage_ctr t = 0"
  shows "\<forall>n \<le> length calls.
           current_usage_ctr (TrackerType_run cfg (take n calls) t)
             \<le> peak_usage_ctr (TrackerType_run cfg (take n calls) t)
         \<and> peak_usage_ctr (TrackerType_run cfg (take n calls) t)
             = Max (set (usage_history cfg (take n calls) t))
         \<and> (\<forall>m \<le> n. peak_usage_ctr (TrackerType_run cfg (take m calls) t)
                        \<le> peak_usage_ctr (TrackerType_run cfg (take n calls) t))"
proof (intro allI impI)
  fix n
  assume "n \<le> length calls"
  let ?calls = "take n calls"
  have point: "current_usage_ctr (TrackerType_run cfg ?calls t)
        \<le> peak_usage_ctr (TrackerType_run cfg ?calls t)
      \<and> peak_usage_ctr (TrackerType_run cfg ?calls t) = Max (set (usage_history cfg ?calls t))"
  proof (cases "ENABLE_TRACKING cfg \<and> TRACKING_LEVEL cfg \<noteq> TL_NONE")
    case True
    then have active: "ENABLE_TRACKING cfg" "TRACKING_LEVEL cfg \<noteq> TL_NONE" by simp_all
    from zero have start: "unat (current_usage_ctr t) = sum_list (map unat [])"
      "current_usage_ctr t \<le> peak_usage_ctr t"
      by simp_all
    have "max (peak_usage_ctr t) (Max (set (usage_history cfg ?calls t)))
        = Max (set (usage_history cfg ?calls t))"
      using zero(2) by (simp add: max.absorb2)
    with TrackerType_run_paired [OF active start correctly_paired_take [OF paired]
        total_fits_take [OF fits], of n]
    show ?thesis by auto
  next
    case False
    with zero show ?thesis
      by (simp add: TrackerType_run_inactive usage_history_inactive)
  qed
  have mono: "peak_usage_ctr (TrackerType_run cfg (take m calls) t)
      \<le> peak_usage_ctr (TrackerType_run cfg ?calls t)" if "m \<le> n" for m
  proof -
    from that have "?calls = take m calls @ drop m ?calls"
      by (metis append_take_drop_id min.absorb1 take_take)
    then have "TrackerType_run cfg ?calls t
        = TrackerType_run cfg (drop m ?calls) (TrackerType_run cfg (take m calls) t)"
      by (metis TrackerType_run_append)
    then show ?thesis by (simp add: peak_usage_run_mono)
  qed
  from point mono
  show "current_usage_ctr (TrackerType_run cfg ?calls t)
          \<le> peak_usage_ctr (TrackerType_run cfg ?calls t)
        \<and> peak_usage_ctr (TrackerType_run cfg ?calls t) = Max (set (usage_history cfg ?calls t))
        \<and> (\<forall>m \<le> n. peak_usage_ctr (TrackerType_run cfg (take m calls) t)
                       \<le> peak_usage_ctr (TrackerType_run cfg ?calls t))"
    by blast
qed


theorem peak_usage_is_running_maximum_witness:
  "correctly_paired []
     [TrackAllocation 64, TrackReallocation 64 256, TrackAllocation 100, TrackDeallocation 256]
   \<and> total_fits []
     [TrackAllocation 64, TrackReallocation 64 256, TrackAllocation 100, TrackDeallocation 256]
   \<and> current_usage_ctr TrackerState_initial = 0 \<and> peak_usage_ctr TrackerState_initial = 0
   \<and> current_usage_ctr (TrackerType_run ThreadSafeConfig (take 4
        [TrackAllocation 64, TrackReallocation 64 256, TrackAllocation 100, TrackDeallocation 256])
        TrackerState_initial)
      \<le> peak_usage_ctr (TrackerType_run ThreadSafeConfig (take 4
        [TrackAllocation 64, TrackReallocation 64 256, TrackAllocation 100, TrackDeallocation 256])
        TrackerState_initial)
   \<and> peak_usage_ctr (TrackerType_run ThreadSafeConfig (take 4
        [TrackAllocation 64, TrackReallocation 64 256, TrackAllocation 100, TrackDeallocation 256])
        TrackerState_initial)
      = Max (set (usage_history ThreadSafeConfig (take 4
        [TrackAllocation 64, TrackReallocation 64 256, TrackAllocation 100, TrackDeallocation 256])
        TrackerState_initial))
   \<and> peak_usage_ctr (TrackerType_run ThreadSafeConfig
        [TrackAllocation 64, TrackReallocation 64 256, TrackAllocation 100, TrackDeallocation 256]
        TrackerState_initial) = 356
   \<and> current_usage_ctr (TrackerType_run ThreadSafeConfig
        [TrackAllocation 64, TrackReallocation 64 256, TrackAllocation 100, TrackDeallocation 256]
        TrackerState_initial) = 100"
proof -
  let ?calls =
    "[TrackAllocation 64, TrackReallocation 64 256, TrackAllocation 100, TrackDeallocation 256]"
  have paired: "correctly_paired [] ?calls" by simp
  have fits: "total_fits [] ?calls" by simp
  have zero: "current_usage_ctr TrackerState_initial = 0" "peak_usage_ctr TrackerState_initial = 0"
    by (simp_all add: TrackerState_initial_def)
  have len: "4 \<le> length ?calls" by simp
  note point = peak_usage_is_running_maximum [OF paired fits zero, of ThreadSafeConfig,
      rule_format, OF len]
  have totals: "peak_usage_ctr (TrackerType_run ThreadSafeConfig ?calls TrackerState_initial) = 356"
    "current_usage_ctr (TrackerType_run ThreadSafeConfig ?calls TrackerState_initial) = 100"
    by (simp_all add: ThreadSafeConfig_def TrackerState_initial_def TrackerType_defs
        BasicMemoryTracker_defs Let_def)
  show ?thesis
    by (intro conjI paired fits zero point [THEN conjunct1]
        point [THEN conjunct2, THEN conjunct1] totals)
qed

text \<open>
  Without the bound on the outstanding sizes C2 fails: the counters are 64-bit,
  and after allocations of \<open>2 ^ 63\<close> and \<open>2 ^ 63 + 5\<close> bytes \<open>current_usage_\<close> has wrapped
  around to 5, so that the matching deallocation of \<open>2 ^ 63\<close> bytes leaves it above
  \<open>peak_usage_\<close>.
\<close>

theorem peak_usage_invariant_counterexample:
  "correctly_paired []
     [TrackAllocation 9223372036854775808, TrackAllocation 9223372036854775813,
      TrackDeallocation 9223372036854775808]
   \<and> current_usage_ctr (TrackerType_run ThreadSafeConfig
        [TrackAllocation 9223372036854775808, TrackAllocation 9223372036854775813,
         TrackDeallocation 9223372036854775808] TrackerState_initial) = 9223372036854775813
   \<and> peak_usage_ctr (TrackerType_run ThreadSafeConfig
        [TrackAllocation 9223372036854775808, TrackAllocation 9223372036854775813,
         TrackDeallocation 9223372036854775808] TrackerState_initial) = 9223372036854775808
   \<and> \<not> current_usage_ctr (TrackerType_run ThreadSafeConfig
        [TrackAllocation 9223372036854775808, TrackAllocation 9223372036854775813,
         TrackDeallocation 9223372036854775808] TrackerState_initial)
       \<le> peak_usage_ctr (TrackerType_run ThreadSafeConfig
        [TrackAllocation 9223372036854775808, TrackAllocation 9223372036854775813,
         TrackDeallocation 9223372036854775808] TrackerState_initial)"
  by (simp add: ThreadSafeConfig_def TrackerState_initial_def TrackerType_defs
      BasicMemoryTracker_defs Let_def)

section \<open>Allocating and freeing a list of blocks\<close>


lemma alloc_static_plain:
  "fst (alloc_static plat cfg False p_bytes p_pad_align mem st)
     = (if mem = nullptr then nullptr
        else if should_use_padding plat cfg p_pad_align then mem + DATA_OFFSET plat else mem)"
  "heap (snd (alloc_static plat cfg False p_bytes p_pad_align mem st))
     = (if mem \<noteq> nullptr \<and> should_use_padding plat cfg p_pad_align
        then (heap st)(get_size_ptr mem := p_bytes) else heap st)"
  "tracker (snd (alloc_static plat cfg False p_bytes p_pad_align mem st))
     = (if mem = nullptr then tracker st
        else TrackerType_track_allocation cfg p_bytes (tracker st))"
  by (simp_all add: alloc_static_def Let_def std_malloc_def report_def)

lemma alloc_all_Cons:
  "fst (alloc_all plat cfg p_pad_align ((p_bytes, mem) # blocks) st)
     = fst (alloc_static plat cfg False p_bytes p_pad_align mem st)
       # fst (alloc_all plat cfg p_pad_align blocks
              (snd (alloc_static plat cfg False p_bytes p_pad_align mem st)))"
  "snd (alloc_all plat cfg p_pad_align ((p_bytes, mem) # blocks) st)
     = snd (alloc_all plat cfg p_pad_align blocks
              (snd (alloc_static plat cfg False p_bytes p_pad_align mem st)))"
  by (simp_all split: prod.splits)

lemma alloc_all_frame:
  "a \<notin> get_size_ptr ` snd ` set blocks \<Longrightarrow>
     heap (snd (alloc_all plat cfg p_pad_align blocks st)) a = heap st a"
proof (induction blocks arbitrary: st)
  case Nil
  then show ?case by simp
next
  case (Cons b blocks)
  obtain p_bytes mem where b: "b = (p_bytes, mem)" by (cases b)
  from Cons.prems b have here: "a \<noteq> get_size_ptr mem"
    and there: "a \<notin> get_size_ptr ` snd ` set blocks"
    by auto
  from Cons.IH [OF there] here show ?case
    unfolding b alloc_all_Cons by (simp add: alloc_static_plain)
qed

lemma get_size_ptr_inj: "get_size_ptr a = get_size_ptr b \<longleftrightarrow> a = b"
  by (simp add: get_size_ptr_def)

lemma alloc_all_headers:
  assumes padded: "should_use_padding plat cfg p_pad_align"
  shows "distinct (map snd blocks) \<Longrightarrow> nullptr \<notin> snd ` set blocks \<Longrightarrow>
         (p_bytes, mem) \<in> set blocks \<Longrightarrow>
         heap (snd (alloc_all plat cfg p_pad_align blocks st)) (get_size_ptr mem) = p_bytes"
proof (induction blocks arbitrary: st)
  case Nil
  then show ?case by simp
next
  case (Cons b blocks)
  obtain s m where b: "b = (s, m)" by (cases b)
  let ?st1 = "snd (alloc_static plat cfg False s p_pad_align m st)"
  from Cons.prems(1,2) b have fresh: "m \<notin> snd ` set blocks" and nonnull: "m \<noteq> nullptr"
    and rest: "distinct (map snd blocks)" "nullptr \<notin> snd ` set blocks"
    by auto
  show ?case
  proof (cases "(p_bytes, mem) = (s, m)")
    case True
    from fresh have "get_size_ptr m \<notin> get_size_ptr ` snd ` set blocks"
      by (force simp: get_size_ptr_inj)
    from alloc_all_frame [OF this, of plat cfg p_pad_align ?st1] padded nonnull True
    show ?thesis
      unfolding b alloc_all_Cons by (simp add: alloc_static_plain)
  next
    case False
    with Cons.prems(3) b have "(p_bytes, mem) \<in> set blocks" by auto
    from Cons.IH [OF rest this, of ?st1] show ?thesis
      unfolding b alloc_all_Cons .
  qed
qed

lemma alloc_all_pointers:
  assumes padded: "should_use_padding plat cfg p_pad_align"
  shows "nullptr \<notin> snd ` set blocks \<Longrightarrow>
         fst (alloc_all plat cfg p_pad_align blocks st)
           = map (\<lambda>b. snd b + DATA_OFFSET plat) blocks"
proof (induction blocks arbitrary: st)
  case Nil
  then show ?case by simp
next
  case (Cons b blocks)
  obtain s m where b: "b = (s, m)" by (cases b)
  from Cons.prems b have "m \<noteq> nullptr" and "nullptr \<notin> snd ` set blocks"
    by auto
  with Cons.IH padded show ?case
    unfolding b alloc_all_Cons by (simp add: alloc_static_plain)
qed

lemma alloc_all_counters:
  assumes active: "ENABLE_TRACKING cfg" "TRACKING_LEVEL cfg \<noteq> TL_NONE"
  shows "nullptr \<notin> snd ` set blocks \<Longrightarrow>
         current_usage_ctr (tracker (snd (alloc_all plat cfg p_pad_align blocks st)))
           = current_usage_ctr (tracker st) + sum_list (map fst blocks)
         \<and> allocation_count_ctr (tracker (snd (alloc_all plat cfg p_pad_align blocks st)))
           = allocation_count_ctr (tracker st) + of_nat (length blocks)
         \<and> deallocation_count_ctr (tracker (snd (alloc_all plat cfg p_pad_align blocks st)))
           = deallocation_count_ctr (tracker st)"
proof (induction blocks arbitrary: st)
  case Nil
  then show ?case by simp
next
  case (Cons b blocks)
  obtain s m where b: "b = (s, m)" by (cases b)
  from Cons.prems b have "m \<noteq> nullptr" and "nullptr \<notin> snd ` set blocks"
    by auto
  with Cons.IH [of "snd (alloc_static plat cfg False s p_pad_align m st)"] show ?case
    unfolding b alloc_all_Cons
    by (simp add: alloc_static_plain TrackerType_track_allocation_usage [OF active]
        add.assoc)
qed

lemma free_all_counters:
  assumes padded: "should_use_padding plat cfg p_pad_align"
    and active: "ENABLE_TRACKING cfg" "TRACKING_LEVEL cfg \<noteq> TL_NONE"
  shows "nullptr \<notin> set ps \<Longrightarrow>
         current_usage_ctr (tracker (free_all plat cfg p_pad_align ps st))
           = current_usage_ctr (tracker st)
             - sum_list (map (\<lambda>p. heap st (get_size_ptr (p - DATA_OFFSET plat))) ps)
         \<and> deallocation_count_ctr (tracker (free_all plat cfg p_pad_align ps st))
           = deallocation_count_ctr (tracker st) + of_nat (length ps)
         \<and> allocation_count_ctr (tracker (free_all plat cfg p_pad_align ps st))
           = allocation_count_ctr (tracker st)"
proof (induction ps arbitrary: st)
  case Nil
  then show ?case by simp
next
  case (Cons p ps)
  from Cons.prems have "p \<noteq> nullptr" and "nullptr \<notin> set ps" by auto
  with Cons.IH [of "free_static plat cfg p p_pad_align st"] show ?case
    by (simp add: free_static_padded [OF padded] std_free_def
        TrackerType_track_deallocation_usage [OF active] diff_diff_eq add.assoc)
qed

lemma distinct_nonnull_length:
  fixes ms :: "pointer list"
  assumes "distinct ms" and "nullptr \<notin> set ms"
  shows "length ms < 2 ^ 64"
proof -
  from assms(2) have "set ms \<subseteq> UNIV - {nullptr}" by auto
  then have "card (set ms) \<le> card (UNIV - {nullptr :: pointer})"
    by (intro card_mono) simp_all
  also have "\<dots> = 2 ^ 64 - 1"
    by (simp add: card_Diff_singleton card_word)
  finally show ?thesis using assms(1) by (simp add: distinct_card)
qed


text \<open>
  C3, as the code has it. Let padding be in effect, let the configuration select an enabled
  aggregate or detailed tracker, and let \<open>current_usage_\<close>, \<open>allocation_count_\<close> and
  \<open>deallocation_count_\<close> be 0 at the start. After \<open>N\<close> calls of \<open>alloc_static\<close> with sizes
  \<open>s1, \<dots>, sN\<close>, for which the system allocator returns distinct non-null blocks,
  followed by \<open>free_static\<close> on each of the \<open>N\<close> pointers returned, in any order,
  \<open>current_usage_\<close> is 0 and \<open>allocation_count_\<close> and \<open>deallocation_count_\<close> are \<open>N\<close>.
\<close>

theorem counter_round_trip:
  assumes padded: "should_use_padding plat cfg p_pad_align"
    and active: "ENABLE_TRACKING cfg" "TRACKING_LEVEL cfg \<noteq> TL_NONE"
    and blocks: "distinct (map snd blocks)"
      "\<forall>b \<in> set blocks. snd b \<noteq> nullptr \<and> snd b + DATA_OFFSET plat \<noteq> nullptr"
    and reset: "current_usage_ctr (tracker st) = 0" "allocation_count_ctr (tracker st) = 0"
      "deallocation_count_ctr (tracker st) = 0"
    and allocs: "alloc_all plat cfg p_pad_align blocks st = (ptrs, st1)"
    and order: "mset order = mset ptrs"
  shows "current_usage_ctr (tracker (free_all plat cfg p_pad_align order st1)) = 0
       \<and> unat (allocation_count_ctr (tracker (free_all plat cfg p_pad_align order st1)))
           = length blocks
       \<and> unat (deallocation_count_ctr (tracker (free_all plat cfg p_pad_align order st1)))
           = length blocks"
proof -
  let ?header = "\<lambda>p. heap st1 (get_size_ptr (p - DATA_OFFSET plat))"
  from blocks(2) have nonnull: "nullptr \<notin> snd ` set blocks" by force
  from allocs have st1: "st1 = snd (alloc_all plat cfg p_pad_align blocks st)"
    and ptrs: "ptrs = fst (alloc_all plat cfg p_pad_align blocks st)"
    by simp_all
  from ptrs alloc_all_pointers [OF padded nonnull, of st]
  have ptrs_eq: "ptrs = map (\<lambda>b. snd b + DATA_OFFSET plat) blocks" by simp
  from alloc_all_counters [OF active nonnull, of plat p_pad_align st] reset st1
  have allocated: "current_usage_ctr (tracker st1) = sum_list (map fst blocks)"
    "allocation_count_ctr (tracker st1) = of_nat (length blocks)"
    "deallocation_count_ctr (tracker st1) = 0"
    by simp_all
  have "map ?header ptrs = map fst blocks"
    unfolding ptrs_eq map_map
  proof (rule map_cong [OF refl])
    fix b assume "b \<in> set blocks"
    then have "(fst b, snd b) \<in> set blocks" by simp
    from alloc_all_headers [OF padded blocks(1) nonnull this, of st] st1
    show "(?header \<circ> (\<lambda>b. snd b + DATA_OFFSET plat)) b = fst b" by simp
  qed
  then have "sum_list (map ?header ptrs) = sum_list (map fst blocks)" by simp
  moreover have "sum_list (map ?header order) = sum_list (map ?header ptrs)"
  proof -
    have "sum_list (map ?header order) = sum_mset (image_mset ?header (mset order))"
      by (simp only: sum_mset_sum_list [symmetric] mset_map)
    also have "\<dots> = sum_list (map ?header ptrs)"
      by (simp only: order sum_mset_sum_list [symmetric] mset_map)
    finally show ?thesis .
  qed
  ultimately have freed: "sum_list (map ?header order) = sum_list (map fst blocks)" by simp
  from order have same: "set order = set ptrs" and len: "length order = length ptrs"
    by (auto dest: mset_eq_setD mset_eq_length)
  from blocks(2) have "nullptr \<notin> set ptrs"
    unfolding ptrs_eq by force
  with same have "nullptr \<notin> set order" by simp
  from free_all_counters [OF padded active this, of st1] freed allocated len ptrs_eq
  have final: "current_usage_ctr (tracker (free_all plat cfg p_pad_align order st1)) = 0"
    "allocation_count_ctr (tracker (free_all plat cfg p_pad_align order st1))
       = of_nat (length blocks)"
    "deallocation_count_ctr (tracker (free_all plat cfg p_pad_align order st1))
       = of_nat (length blocks)"
    by simp_all
  from distinct_nonnull_length [OF blocks(1)] nonnull have "length blocks < 2 ^ 64"
    by simp
  then have "unat (of_nat (length blocks) :: memory_uint64_t) = length blocks"
    by (simp add: unat_of_nat)
  with final show ?thesis by simp
qed


theorem counter_round_trip_witness:
  "should_use_padding debug_build DebugConfig False
   \<and> ENABLE_TRACKING DebugConfig \<and> TRACKING_LEVEL DebugConfig \<noteq> TL_NONE
   \<and> distinct (map snd [(16 :: memory_size_t, 4096 :: pointer), (32, 8192), (64, 12288)])
   \<and> (4096 :: pointer) \<noteq> nullptr \<and> 4096 + DATA_OFFSET debug_build \<noteq> nullptr
   \<and> (8192 :: pointer) \<noteq> nullptr \<and> 8192 + DATA_OFFSET debug_build \<noteq> nullptr
   \<and> (12288 :: pointer) \<noteq> nullptr \<and> 12288 + DATA_OFFSET debug_build \<noteq> nullptr
   \<and> alloc_all debug_build DebugConfig False [(16, 4096), (32, 8192), (64, 12288)] MemoryState_initial
       = ([4112, 8208, 12304],
          snd (alloc_all debug_build DebugConfig False [(16, 4096), (32, 8192), (64, 12288)]
                 MemoryState_initial))
   \<and> mset [8208, 12304, 4112 :: pointer] = mset [4112, 8208, 12304]
   \<and> current_usage_ctr (tracker
         (snd (alloc_all debug_build DebugConfig False [(16, 4096), (32, 8192), (64, 12288)]
                 MemoryState_initial))) = 112
   \<and> current_usage_ctr (tracker (free_all debug_build DebugConfig False [8208, 12304, 4112]
         (snd (alloc_all debug_build DebugConfig False [(16, 4096), (32, 8192), (64, 12288)]
                 MemoryState_initial)))) = 0
   \<and> unat (allocation_count_ctr (tracker (free_all debug_build DebugConfig False [8208, 12304, 4112]
         (snd (alloc_all debug_build DebugConfig False [(16, 4096), (32, 8192), (64, 12288)]
                 MemoryState_initial)))))
       = length [(16 :: memory_size_t, 4096 :: pointer), (32, 8192), (64, 12288)]
   \<and> unat (deallocation_count_ctr (tracker (free_all debug_build DebugConfig False [8208, 12304, 4112]
         (snd (alloc_all debug_build DebugConfig False [(16, 4096), (32, 8192), (64, 12288)]
                 MemoryState_initial)))))
       = length [(16 :: memory_size_t, 4096 :: pointer), (32, 8192), (64, 12288)]"
proof -
  let ?blocks = "[(16 :: memory_size_t, 4096 :: pointer), (32, 8192), (64, 12288)]"
  let ?st1 = "snd (alloc_all debug_build DebugConfig False ?blocks MemoryState_initial)"
  have offset: "DATA_OFFSET debug_build = 16"
    by (simp add: DATA_OFFSET_def ELEMENT_OFFSET_def SIZE_OFFSET_def sizeof_uint64_def
        debug_build_def)
  have padded: "should_use_padding debug_build DebugConfig False"
    by (simp add: should_use_padding_def DebugConfig_def)
  have active: "ENABLE_TRACKING DebugConfig" "TRACKING_LEVEL DebugConfig \<noteq> TL_NONE"
    by (simp_all add: DebugConfig_def)
  have keys: "distinct (map snd ?blocks)" by simp
  have blocks: "\<forall>b \<in> set ?blocks. snd b \<noteq> nullptr \<and> snd b + DATA_OFFSET debug_build \<noteq> nullptr"
    by (simp add: offset nullptr_def)
  have reset: "current_usage_ctr (tracker MemoryState_initial) = 0"
    "allocation_count_ctr (tracker MemoryState_initial) = 0"
    "deallocation_count_ctr (tracker MemoryState_initial) = 0"
    by (simp_all add: MemoryState_initial_def TrackerState_initial_def)
  have "fst (alloc_all debug_build DebugConfig False ?blocks MemoryState_initial)
      = [4112, 8208, 12304]"
    using alloc_all_pointers [OF padded, of ?blocks MemoryState_initial]
    by (simp add: offset nullptr_def del: alloc_all.simps)
  then have allocs: "alloc_all debug_build DebugConfig False ?blocks MemoryState_initial
      = ([4112, 8208, 12304], ?st1)"
    by (simp add: prod_eq_iff)
  have order: "mset [8208, 12304, 4112 :: pointer] = mset [4112, 8208, 12304]"
    by simp
  have usage: "current_usage_ctr (tracker ?st1) = 112"
    using alloc_all_counters [OF active, of ?blocks debug_build False MemoryState_initial] reset
    by (simp add: nullptr_def del: alloc_all.simps)
  have nonnull: "(4096 :: pointer) \<noteq> nullptr" "4096 + DATA_OFFSET debug_build \<noteq> nullptr"
    "(8192 :: pointer) \<noteq> nullptr" "8192 + DATA_OFFSET debug_build \<noteq> nullptr"
    "(12288 :: pointer) \<noteq> nullptr" "12288 + DATA_OFFSET debug_build \<noteq> nullptr"
    by (simp_all add: offset nullptr_def)
  note round_trip = counter_round_trip [OF padded active keys blocks reset allocs order]
  show ?thesis
    by (intro conjI padded active keys nonnull allocs order usage round_trip [THEN conjunct1]
        round_trip [THEN conjunct2, THEN conjunct1] round_trip [THEN conjunct2, THEN conjunct2])
qed

text \<open>
  Without padding C3 fails: \<open>free_static\<close> then passes the size 0 to
  \<open>track_deallocation\<close>. Under \<open>ThreadSafeConfig\<close> in a release build, allocating 10 bytes
  and freeing them leaves \<open>current_usage_\<close> at 10.
\<close>

theorem counter_round_trip_counterexample:
  "ENABLE_TRACKING ThreadSafeConfig \<and> TRACKING_LEVEL ThreadSafeConfig = BASIC
   \<and> alloc_all release_build ThreadSafeConfig False [(10, 4096)] MemoryState_initial
       = ([4096], snd (alloc_all release_build ThreadSafeConfig False [(10, 4096)] MemoryState_initial))
   \<and> current_usage_ctr (tracker (free_all release_build ThreadSafeConfig False [4096]
         (snd (alloc_all release_build ThreadSafeConfig False [(10, 4096)] MemoryState_initial)))) = 10
   \<and> allocation_count_ctr (tracker (free_all release_build ThreadSafeConfig False [4096]
         (snd (alloc_all release_build ThreadSafeConfig False [(10, 4096)] MemoryState_initial)))) = 1
   \<and> deallocation_count_ctr (tracker (free_all release_build ThreadSafeConfig False [4096]
         (snd (alloc_all release_build ThreadSafeConfig False [(10, 4096)] MemoryState_initial)))) = 1"
  by (simp add: ThreadSafeConfig_def release_build_def MemoryState_initial_def
      TrackerState_initial_def alloc_static_def free_static_def should_use_padding_def
      std_malloc_def std_free_def nullptr_def Let_def TrackerType_defs BasicMemoryTracker_defs)

end
